theory Spec2Isabelle
  imports Complex_Main "HOL-Library.Sublist" "HOL-Library.Multiset"
begin

section \<open>JavaScript strings\<close>

text \<open>
  A JavaScript string is a sequence of UTF-16 code units. The model reads a \<^typ>\<open>char\<close>
  as the code unit of the same value, so it covers the strings whose code units are
  below 256 (ASCII and Latin-1), which includes every name, price and selector of the
  fixtures and pages. Numbers are modelled by their exact mathematical value
  (\<^typ>\<open>rat\<close>, \<^typ>\<open>int\<close>); the rounding to a double is not part of the model.
\<close>

text \<open>
  The code units below 256 that the pattern \<^verbatim>\<open>\s\<close>, \<^verbatim>\<open>String.prototype.trim\<close>,
  \<^verbatim>\<open>parseFloat\<close> and \<^verbatim>\<open>parseInt\<close> treat as white space: TAB, LF, VT, FF, CR, SP, NBSP.
\<close>

definition isWhiteSpace :: "char \<Rightarrow> bool" where
  "isWhiteSpace c = (of_char c \<in> {9, 10, 11, 12, 13, 32, 160 :: nat})"

text \<open>
  \<^verbatim>\<open>String.prototype.toLowerCase\<close> on one code unit below 256: the letters A-Z and the
  Latin-1 capitals U+00C0-U+00DE (without the multiplication sign U+00D7) move up by 32.
\<close>

definition toLowerCase_char :: "char \<Rightarrow> char" where
  "toLowerCase_char c =
     (let n = of_char c :: nat
      in if (65 \<le> n \<and> n \<le> 90) \<or> (192 \<le> n \<and> n \<le> 222 \<and> n \<noteq> 215)
         then char_of (n + 32) else c)"

definition toLowerCase :: "string \<Rightarrow> string" where
  "toLowerCase s = map toLowerCase_char s"

text \<open>
  \<^verbatim>\<open>s.replace(/\s+/g, '-')\<close>: scanning from the left, every maximal run of white space
  is replaced by one hyphen.
\<close>

function replace_ws_runs :: "string \<Rightarrow> string" where
  "replace_ws_runs [] = []"
| "replace_ws_runs (c # cs) =
     (if isWhiteSpace c then CHR ''-'' # replace_ws_runs (dropWhile isWhiteSpace cs)
      else c # replace_ws_runs cs)"
  by pat_completeness auto
termination
  by (relation "measure length") (auto simp: length_dropWhile_le less_Suc_eq_le)

text \<open>\<^verbatim>\<open>s.replace(/[()]/g, '')\<close> and \<^verbatim>\<open>s.replace(/\./g, '')\<close>.\<close>

definition remove_parens :: "string \<Rightarrow> string" where
  "remove_parens s = filter (\<lambda>c. c \<noteq> CHR ''('' \<and> c \<noteq> CHR '')'') s"

definition remove_periods :: "string \<Rightarrow> string" where
  "remove_periods s = filter (\<lambda>c. c \<noteq> CHR ''.'') s"

section \<open>TestHelpers.productNameToDataTest\<close>

text \<open>
  \<^verbatim>\<open>
  static productNameToDataTest(productName) {
    return productName.toLowerCase()
      .replace(/\s+/g, '-')
      .replace(/[()]/g, '')
      .replace(/\./g, '');
  }
  \<close>
\<close>

definition productNameToDataTest :: "string \<Rightarrow> string" where
  "productNameToDataTest productName =
     remove_periods (remove_parens (replace_ws_runs (toLowerCase productName)))"

text \<open>
  The specification's \<^verbatim>\<open>normalizeProductKey\<close>, written from its words as one pass over
  the name: a character is lower-cased, a white-space run gives a single hyphen (at
  its first character), parentheses and periods are dropped. The flag says whether
  the previous character was white space.
\<close>

fun normalizeProductKey_from :: "bool \<Rightarrow> string \<Rightarrow> string" where
  "normalizeProductKey_from in_run [] = []"
| "normalizeProductKey_from in_run (c # cs) =
     (if isWhiteSpace c
      then (if in_run then [] else [CHR ''-'']) @ normalizeProductKey_from True cs
      else if c = CHR ''('' \<or> c = CHR '')'' \<or> c = CHR ''.''
      then normalizeProductKey_from False cs
      else toLowerCase_char c # normalizeProductKey_from False cs)"

definition normalizeProductKey :: "string \<Rightarrow> string" where
  "normalizeProductKey name = normalizeProductKey_from False name"

section \<open>Completions, numbers and the numeric parsers of the runtime\<close>

text \<open>
  A call either returns a value or throws an error object with a name and a message.
\<close>

datatype js_error = JsError (err_name: string) (err_message: string)

datatype 'a completion = is_Normal: Normal (the_value: 'a) | is_Throw: Throw (the_error: js_error)

text \<open>
  The Number values that \<^verbatim>\<open>parseFloat\<close> can return; \<open>Num q\<close> stands for the double
  nearest to \<open>q\<close> (and \<open>Num 0\<close> for both zeros).
\<close>

datatype js_number = NaN | PosInfinity | NegInfinity | Num rat

definition isDigit :: "char \<Rightarrow> bool" where
  "isDigit c = (48 \<le> (of_char c :: nat) \<and> (of_char c :: nat) \<le> 57)"

definition digit_value :: "char \<Rightarrow> nat" where
  "digit_value c = of_char c - 48"

definition digits_value :: "string \<Rightarrow> nat" where
  "digits_value ds = foldl (\<lambda>acc c. 10 * acc + digit_value c) 0 ds"

definition pow10 :: "int \<Rightarrow> rat" where
  "pow10 e = (if 0 \<le> e then 10 ^ nat e else 1 / 10 ^ nat (- e))"

text \<open>
  \<^verbatim>\<open>s.replace(p, r)\<close> with a one-character string pattern \<open>p\<close>: only the first
  occurrence is replaced, wherever it is.
\<close>

fun replace_first :: "char \<Rightarrow> string \<Rightarrow> string \<Rightarrow> string" where
  "replace_first p r [] = []"
| "replace_first p r (c # cs) = (if c = p then r @ cs else c # replace_first p r cs)"

text \<open>
  \<^verbatim>\<open>parseFloat\<close> (ECMA-262, 19.2.4): leading white space is skipped, then the longest
  prefix that is a \<^verbatim>\<open>StrDecimalLiteral\<close> is read; what follows it is ignored. Without
  such a prefix the result is \<open>NaN\<close>.
  \<^verbatim>\<open>
  StrDecimalLiteral          ::: [+-]? StrUnsignedDecimalLiteral
  StrUnsignedDecimalLiteral  ::: Infinity
                               | DecimalDigits . DecimalDigits? ExponentPart?
                               | . DecimalDigits ExponentPart?
                               | DecimalDigits ExponentPart?
  ExponentPart               ::: [eE] [+-]? DecimalDigits
  \<close>
\<close>

definition signed_digits :: "int \<Rightarrow> string \<Rightarrow> int" where
  "signed_digits sg ds =
     (let d = takeWhile isDigit ds in if d = [] then 0 else sg * int (digits_value d))"

definition parse_exponent :: "string \<Rightarrow> int" where
  "parse_exponent r =
     (case r of
        [] \<Rightarrow> 0
      | e # r1 \<Rightarrow>
          if e = CHR ''e'' \<or> e = CHR ''E'' then
            (case r1 of
               [] \<Rightarrow> 0
             | s # r2 \<Rightarrow>
                 if s = CHR ''+'' then signed_digits 1 r2
                 else if s = CHR ''-'' then signed_digits (- 1) r2
                 else signed_digits 1 r1)
          else 0)"

definition parse_unsigned_decimal :: "string \<Rightarrow> js_number" where
  "parse_unsigned_decimal t =
     (if prefix ''Infinity'' t then PosInfinity
      else
        let ip = takeWhile isDigit t; r1 = dropWhile isDigit t
        in case r1 of
             [] \<Rightarrow> if ip = [] then NaN else Num (of_nat (digits_value ip))
           | c # r2 \<Rightarrow>
               if c = CHR ''.'' then
                 (let fp = takeWhile isDigit r2; r3 = dropWhile isDigit r2
                  in if ip = [] \<and> fp = [] then NaN
                     else Num (of_nat (digits_value (ip @ fp)) / 10 ^ length fp
                               * pow10 (parse_exponent r3)))
               else if ip = [] then NaN
               else Num (of_nat (digits_value ip) * pow10 (parse_exponent r1)))"

definition negate :: "js_number \<Rightarrow> js_number" where
  "negate v = (case v of NaN \<Rightarrow> NaN | PosInfinity \<Rightarrow> NegInfinity
               | NegInfinity \<Rightarrow> PosInfinity | Num q \<Rightarrow> Num (- q))"

definition parseFloat :: "string \<Rightarrow> js_number" where
  "parseFloat s =
     (let t = dropWhile isWhiteSpace s
      in case t of
           [] \<Rightarrow> NaN
         | c # r \<Rightarrow>
             if c = CHR ''-'' then negate (parse_unsigned_decimal r)
             else if c = CHR ''+'' then parse_unsigned_decimal r
             else parse_unsigned_decimal t)"

text \<open>
  Whether a string begins with a \<^verbatim>\<open>StrDecimalLiteral\<close>: after an optional sign comes
  \<^verbatim>\<open>Infinity\<close>, a digit, or a period and a digit.
\<close>

definition starts_unsigned_decimal :: "string \<Rightarrow> bool" where
  "starts_unsigned_decimal u =
     (prefix ''Infinity'' u \<or>
      (case u of
         [] \<Rightarrow> False
       | c # r \<Rightarrow> isDigit c \<or> (c = CHR ''.'' \<and> (case r of [] \<Rightarrow> False | d # _ \<Rightarrow> isDigit d))))"

definition starts_decimal_literal :: "string \<Rightarrow> bool" where
  "starts_decimal_literal t =
     (case t of
        [] \<Rightarrow> False
      | c # r \<Rightarrow> if c = CHR ''-'' \<or> c = CHR ''+'' then starts_unsigned_decimal r
                 else starts_unsigned_decimal t)"

text \<open>
  \<^verbatim>\<open>parseInt(s)\<close> without a radix (ECMA-262, 19.2.5): leading white space is skipped,
  a sign is read, a prefix \<^verbatim>\<open>0x\<close> or \<^verbatim>\<open>0X\<close> selects radix 16, and the longest run of
  digits of the radix is read. An empty run gives \<open>NaN\<close>. The digits denote a
  mathematical integer, and the result is the Number for it: up to \<open>2^53\<close> in magnitude
  every integer is a Number, and the result is that integer exactly (\<open>Integer n\<close>, with
  \<open>Integer 0\<close> for both zeros). Beyond \<open>2^53\<close> the engine rounds, and for more than 20
  digits it may approximate first; the model then records only the integer that was
  read (\<open>Approximately m\<close>: some Number near \<open>m\<close>, or an infinity) and does not say which
  Number it is.
\<close>

datatype js_integer = NotANumber | Integer int | Approximately int

definition isHexDigit :: "char \<Rightarrow> bool" where
  "isHexDigit c =
     (let n = of_char c :: nat
      in (48 \<le> n \<and> n \<le> 57) \<or> (65 \<le> n \<and> n \<le> 70) \<or> (97 \<le> n \<and> n \<le> 102))"

definition hex_value :: "char \<Rightarrow> nat" where
  "hex_value c =
     (let n = of_char c :: nat
      in if n \<le> 57 then n - 48 else if n \<le> 70 then n - 55 else n - 87)"

definition radix_digits :: "nat \<Rightarrow> string \<Rightarrow> nat option" where
  "radix_digits R s =
     (let z = takeWhile (if R = 16 then isHexDigit else isDigit) s
      in if z = [] then None
         else Some (foldl (\<lambda>acc c. R * acc + (if R = 16 then hex_value c else digit_value c)) 0 z))"

definition to_Number :: "int \<Rightarrow> nat \<Rightarrow> js_integer" where
  "to_Number sign m =
     (if m \<le> 2 ^ 53 then Integer (sign * int m) else Approximately (sign * int m))"

definition parseInt :: "string \<Rightarrow> js_integer" where
  "parseInt string =
     (let S = dropWhile isWhiteSpace string;
          sign = (case S of [] \<Rightarrow> 1 | c # _ \<Rightarrow> if c = CHR ''-'' then - 1 else (1 :: int));
          S1 = (case S of [] \<Rightarrow> [] | c # r \<Rightarrow> if c = CHR ''+'' \<or> c = CHR ''-'' then r else S);
          hex = (prefix ''0x'' S1 \<or> prefix ''0X'' S1);
          mathInt = (if hex then radix_digits 16 (drop 2 S1) else radix_digits 10 S1)
      in case mathInt of None \<Rightarrow> NotANumber | Some m \<Rightarrow> to_Number sign m)"

text \<open>
  \<^verbatim>\<open>v || 0\<close> for a number \<open>v\<close>: \<open>NaN\<close> and both zeros are falsy and give 0, every other
  number is truthy and is the result.
\<close>

definition or_zero :: "js_integer \<Rightarrow> js_integer" where
  "or_zero v =
     (case v of
        NotANumber \<Rightarrow> Integer 0
      | Integer n \<Rightarrow> if n = 0 then Integer 0 else Integer n
      | Approximately m \<Rightarrow> Approximately m)"

text \<open>\<^verbatim>\<open>String.prototype.trim\<close>.\<close>

definition trim :: "string \<Rightarrow> string" where
  "trim s = rev (dropWhile isWhiteSpace (rev (dropWhile isWhiteSpace s)))"

section \<open>TestHelpers.currencyToNumber\<close>

text \<open>
  \<^verbatim>\<open>
  static currencyToNumber(currencyString) {
    return parseFloat(currencyString.replace('$', ''));
  }
  \<close>
  Neither \<^verbatim>\<open>replace\<close> nor \<^verbatim>\<open>parseFloat\<close> throws on a string, and the body has no
  \<^verbatim>\<open>throw\<close> of its own.
\<close>

definition currencyToNumber :: "string \<Rightarrow> js_number completion" where
  "currencyToNumber currencyString =
     Normal (parseFloat (replace_first (CHR ''$'') [] currencyString))"

section \<open>Values, the array heap and Math.random\<close>

text \<open>
  The values \<^verbatim>\<open>JSON.parse\<close> can return, and \<^verbatim>\<open>undefined\<close> for a missing property.
\<close>

datatype js_value =
    Undefined
  | Null
  | Boolean bool
  | Number rat
  | String string
  | Array "js_value list"
  | Object "(string \<times> js_value) list"

text \<open>
  Arrays are mutable objects: the heap holds the elements of every array that has been
  created, and a reference to an array is its index in the heap. \<^verbatim>\<open>Math.random()\<close>
  returns the next element of a sequence \<open>rnd\<close> of numbers that is a parameter of the
  model; the state counts the calls made so far.
\<close>

record js_state =
  heap :: "js_value list list"
  random_calls :: nat

definition alloc :: "js_value list \<Rightarrow> js_state \<Rightarrow> nat \<times> js_state" where
  "alloc xs st = (length (heap st), st\<lparr>heap := heap st @ [xs]\<rparr>)"

definition Math_random :: "(nat \<Rightarrow> rat) \<Rightarrow> js_state \<Rightarrow> rat \<times> js_state" where
  "Math_random rnd st = (rnd (random_calls st), st\<lparr>random_calls := Suc (random_calls st)\<rparr>)"

text \<open>The contract of \<^verbatim>\<open>Math.random\<close>: every number is at least 0 and below 1.\<close>

definition unit_interval :: "(nat \<Rightarrow> rat) \<Rightarrow> bool" where
  "unit_interval rnd = (\<forall>k. 0 \<le> rnd k \<and> rnd k < 1)"

text \<open>
  \<^verbatim>\<open>Array.prototype.sort(comparefn)\<close>. The order in which an engine calls the comparator
  is implementation-defined; the model inserts the elements one by one from the right,
  calling \<open>comparefn x y\<close> to decide whether \<open>x\<close> goes before \<open>y\<close> (a negative result).
  The comparator may change the state, as one that calls \<^verbatim>\<open>Math.random\<close> does.
\<close>

fun sort_insert ::
  "('a \<Rightarrow> 'a \<Rightarrow> 's \<Rightarrow> rat \<times> 's) \<Rightarrow> 'a \<Rightarrow> 'a list \<Rightarrow> 's \<Rightarrow> 'a list \<times> 's" where
  "sort_insert comparefn x [] s = ([x], s)"
| "sort_insert comparefn x (y # ys) s =
     (case comparefn x y s of
        (v, s') \<Rightarrow>
          if v < 0 then (x # y # ys, s')
          else (case sort_insert comparefn x ys s' of (zs, s'') \<Rightarrow> (y # zs, s'')))"

fun sort_list ::
  "('a \<Rightarrow> 'a \<Rightarrow> 's \<Rightarrow> rat \<times> 's) \<Rightarrow> 'a list \<Rightarrow> 's \<Rightarrow> 'a list \<times> 's" where
  "sort_list comparefn [] s = ([], s)"
| "sort_list comparefn (x # xs) s =
     (case sort_list comparefn xs s of (ys, s') \<Rightarrow> sort_insert comparefn x ys s')"

text \<open>The sort is in place: the array at the reference is overwritten.\<close>

definition Array_sort ::
  "(js_value \<Rightarrow> js_value \<Rightarrow> js_state \<Rightarrow> rat \<times> js_state) \<Rightarrow> nat \<Rightarrow> js_state \<Rightarrow> nat \<times> js_state" where
  "Array_sort comparefn a st =
     (case sort_list comparefn (heap st ! a) st of
        (ys, st') \<Rightarrow> (a, st'\<lparr>heap := (heap st')[a := ys]\<rparr>))"

text \<open>
  \<^verbatim>\<open>xs.slice(0, end)\<close> for an integer \<open>end\<close>: a negative \<open>end\<close> counts from the end of the
  array. The result is a new array.
\<close>

definition slice0 :: "'a list \<Rightarrow> int \<Rightarrow> 'a list" where
  "slice0 xs end =
     (let len = int (length xs);
          final = (if end < 0 then max (len + end) 0 else min end len)
      in take (nat final) xs)"

text \<open>
  \<^verbatim>\<open>v[key]\<close> for the keys the helpers read (\<^verbatim>\<open>products\<close>, \<^verbatim>\<open>validUsers\<close>, \<^verbatim>\<open>invalidUsers\<close>),
  which no prototype defines: reading a property of \<^verbatim>\<open>null\<close> or \<^verbatim>\<open>undefined\<close> throws,
  an object gives the value of the key or \<^verbatim>\<open>undefined\<close>, every other value gives
  \<^verbatim>\<open>undefined\<close>.
\<close>

definition get_property :: "js_value \<Rightarrow> string \<Rightarrow> js_value completion" where
  "get_property v key =
     (case v of
        Undefined \<Rightarrow> Throw (JsError ''TypeError''
                      (''Cannot read properties of undefined (reading '' @ key @ '')''))
      | Null \<Rightarrow> Throw (JsError ''TypeError''
                 (''Cannot read properties of null (reading '' @ key @ '')''))
      | Object kvs \<Rightarrow> (case map_of kvs key of None \<Rightarrow> Normal Undefined | Some x \<Rightarrow> Normal x)
      | _ \<Rightarrow> Normal Undefined)"

section \<open>TestHelpers.loadFixture and TestHelpers.getProducts\<close>

text \<open>
  The Node.js runtime as far as \<^verbatim>\<open>loadFixture\<close> uses it: the directory of the module,
  \<^verbatim>\<open>path.join\<close>, \<^verbatim>\<open>fs.readFileSync(path, 'utf8')\<close> (the text of the file, or an error
  when the file is missing or cannot be read) and \<^verbatim>\<open>JSON.parse\<close> (the parsed value, or a
  \<^verbatim>\<open>SyntaxError\<close> when the text is not JSON).
\<close>

record node_env =
  dirname :: string
  path_join :: "string list \<Rightarrow> string"
  readFileSync :: "string \<Rightarrow> string completion"
  JSON_parse :: "string \<Rightarrow> js_value completion"

text \<open>
  \<^verbatim>\<open>
  static loadFixture(filename) {
    const filePath = path.join(__dirname, '..', 'fixtures', `${filename}.json`);
    try {
      const data = fs.readFileSync(filePath, 'utf8');
      return JSON.parse(data);
    } catch (error) {
      throw new Error(`Failed to load fixture ${filename}: ${error.message}`);
    }
  }
  \<close>
\<close>

definition fixture_path :: "node_env \<Rightarrow> string \<Rightarrow> string" where
  "fixture_path env filename =
     path_join env [dirname env, ''..'', ''fixtures'', filename @ ''.json'']"

definition load_failure :: "string \<Rightarrow> js_error \<Rightarrow> js_error" where
  "load_failure filename error =
     JsError ''Error'' (''Failed to load fixture '' @ filename @ '': '' @ err_message error)"

definition loadFixture :: "node_env \<Rightarrow> string \<Rightarrow> js_value completion" where
  "loadFixture env filename =
     (let filePath = fixture_path env filename
      in case readFileSync env filePath of
           Throw error \<Rightarrow> Throw (load_failure filename error)
         | Normal data \<Rightarrow>
             (case JSON_parse env data of
                Throw error \<Rightarrow> Throw (load_failure filename error)
              | Normal v \<Rightarrow> Normal v))"

text \<open>
  The two ways the external representation of a fixture can be unusable, and the error
  the specification calls \<^verbatim>\<open>FixtureLoadError\<close>: the code throws a plain \<^verbatim>\<open>Error\<close> whose
  message begins with \<^verbatim>\<open>Failed to load fixture\<close> and the name of the fixture.
\<close>

definition fixture_missing :: "node_env \<Rightarrow> string \<Rightarrow> bool" where
  "fixture_missing env filename = is_Throw (readFileSync env (fixture_path env filename))"

definition fixture_malformed :: "node_env \<Rightarrow> string \<Rightarrow> bool" where
  "fixture_malformed env filename =
     (case readFileSync env (fixture_path env filename) of
        Throw _ \<Rightarrow> False
      | Normal data \<Rightarrow> is_Throw (JSON_parse env data))"

definition FixtureLoadError :: "string \<Rightarrow> js_error \<Rightarrow> bool" where
  "FixtureLoadError filename e =
     (err_name e = ''Error'' \<and> prefix (''Failed to load fixture '' @ filename @ '': '') (err_message e))"

text \<open>
  \<^verbatim>\<open>
  static getProducts() {
    const productsData = this.loadFixture('products');
    return productsData.products;
  }
  \<close>
\<close>

definition getProducts :: "node_env \<Rightarrow> js_value completion" where
  "getProducts env =
     (case loadFixture env ''products'' of
        Throw e \<Rightarrow> Throw e
      | Normal productsData \<Rightarrow> get_property productsData ''products'')"

section \<open>TestHelpers.getRandomProducts\<close>

text \<open>
  \<^verbatim>\<open>
  static getRandomProducts(count = 3) {
    const products = this.getProducts();
    const shuffled = [...products].sort(() => 0.5 - Math.random());
    return shuffled.slice(0, Math.min(count, products.length));
  }
  \<close>
  The comparator ignores the two elements it is given and draws a random number.
\<close>

definition random_comparefn ::
  "(nat \<Rightarrow> rat) \<Rightarrow> js_value \<Rightarrow> js_value \<Rightarrow> js_state \<Rightarrow> rat \<times> js_state" where
  "random_comparefn rnd a b st = (case Math_random rnd st of (r, st') \<Rightarrow> (1 / 2 - r, st'))"

text \<open>
  The body after the first line, for a reference \<open>products\<close> to an array of the heap:
  the spread \<^verbatim>\<open>[...products]\<close> creates a new array with the same elements, \<^verbatim>\<open>sort\<close>
  rearranges that new array in place and returns the reference to it, and \<^verbatim>\<open>slice\<close>
  creates the array that is returned.
\<close>

definition getRandomProducts_from ::
  "(nat \<Rightarrow> rat) \<Rightarrow> int \<Rightarrow> nat \<Rightarrow> js_state \<Rightarrow> nat \<times> js_state" where
  "getRandomProducts_from rnd cnt products st =
     (case alloc (heap st ! products) st of
        (copy, st1) \<Rightarrow>
          (case Array_sort (random_comparefn rnd) copy st1 of
             (shuffled, st2) \<Rightarrow>
               alloc (slice0 (heap st2 ! shuffled)
                        (min cnt (int (length (heap st2 ! products))))) st2))"

text \<open>
  The whole function. \<^verbatim>\<open>getProducts\<close> parses the fixture file anew, so an array it
  returns is a new array of the heap. A string is iterable too (its characters, and
  \<^verbatim>\<open>length\<close> is their number); spreading any other value throws a \<^verbatim>\<open>TypeError\<close>.
  The argument is \<open>None\<close> when the caller passes none; \<open>cnt\<close> is the parameter \<^verbatim>\<open>count\<close>.
\<close>

definition getRandomProducts ::
  "node_env \<Rightarrow> (nat \<Rightarrow> rat) \<Rightarrow> int option \<Rightarrow> js_state \<Rightarrow> nat completion \<times> js_state" where
  "getRandomProducts env rnd count_arg st =
     (let cnt = (case count_arg of None \<Rightarrow> 3 | Some c \<Rightarrow> c)
      in case getProducts env of
           Throw e \<Rightarrow> (Throw e, st)
         | Normal (Array xs) \<Rightarrow>
             (case alloc xs st of
                (products, st1) \<Rightarrow>
                  (case getRandomProducts_from rnd cnt products st1 of
                     (r, st2) \<Rightarrow> (Normal r, st2)))
         | Normal (String s) \<Rightarrow>
             (case alloc (map (\<lambda>c. String [c]) s) st of
                (copy, st1) \<Rightarrow>
                  (case Array_sort (random_comparefn rnd) copy st1 of
                     (shuffled, st2) \<Rightarrow>
                       (case alloc (slice0 (heap st2 ! shuffled) (min cnt (int (length s)))) st2 of
                          (r, st3) \<Rightarrow> (Normal r, st3))))
         | Normal _ \<Rightarrow> (Throw (JsError ''TypeError'' ''products is not iterable''), st))"

section \<open>TestHelpers.generateRandomString\<close>

text \<open>
  \<^verbatim>\<open>
  static generateRandomString(length = 10) {
    const characters = 'ABCDEFGHIJKLMNOPQRSTUVWXYZabcdefghijklmnopqrstuvwxyz0123456789';
    let result = '';
    for (let i = 0; i < length; i++) {
      result += characters.charAt(Math.floor(Math.random() * characters.length));
    }
    return result;
  }
  \<close>
  \<^verbatim>\<open>charAt\<close> gives the empty string for an index outside the string. The length is an
  integer; \<open>None\<close> stands for a call without argument.
\<close>

definition characters :: string where
  "characters = ''ABCDEFGHIJKLMNOPQRSTUVWXYZabcdefghijklmnopqrstuvwxyz0123456789''"

text \<open>The letters A-Z and a-z and the digits 0-9, by their code units.\<close>

definition alphanumeric :: "char \<Rightarrow> bool" where
  "alphanumeric c =
     (let n = of_char c :: nat
      in (65 \<le> n \<and> n \<le> 90) \<or> (97 \<le> n \<and> n \<le> 122) \<or> (48 \<le> n \<and> n \<le> 57))"

definition charAt :: "string \<Rightarrow> int \<Rightarrow> string" where
  "charAt s k = (if 0 \<le> k \<and> k < int (length s) then [s ! nat k] else [])"

function generateRandomString_loop ::
  "(nat \<Rightarrow> rat) \<Rightarrow> int \<Rightarrow> int \<Rightarrow> string \<Rightarrow> js_state \<Rightarrow> string \<times> js_state" where
  "generateRandomString_loop rnd len i result st =
     (if i < len then
        (case Math_random rnd st of
           (r, st') \<Rightarrow>
             generateRandomString_loop rnd len (i + 1)
               (result @ charAt characters (\<lfloor>r * of_nat (length characters)\<rfloor>)) st')
      else (result, st))"
  by pat_completeness auto
termination
  by (relation "measure (\<lambda>(rnd, len, i, result, st). nat (len - i))") auto

definition generateRandomString ::
  "(nat \<Rightarrow> rat) \<Rightarrow> int option \<Rightarrow> js_state \<Rightarrow> string \<times> js_state" where
  "generateRandomString rnd length_arg st =
     (let len = (case length_arg of None \<Rightarrow> 10 | Some n \<Rightarrow> n)
      in generateRandomString_loop rnd len 0 [] st)"

section \<open>The browser\<close>

text \<open>
  The page objects drive a browser through the automation library. The page under
  test, with whatever the site does in response, is a state of an arbitrary type \<open>'p\<close>;
  the operations of the library that the page objects call are the fields of a record
  and are parameters of the model. An operation that waits or acts may change the page
  and may throw (a timeout, a detached element); a query reads the page as it is.
  \<^item> \<open>pw_waitForSelector s t\<close>: \<^verbatim>\<open>page.waitForSelector(s, { state: 'visible', timeout: t })\<close>
  \<^item> \<open>pw_fill s v\<close>, \<open>pw_click s\<close>, \<open>pw_textContent s\<close>: \<^verbatim>\<open>page.fill\<close>, \<^verbatim>\<open>page.click\<close>,
    \<^verbatim>\<open>page.textContent\<close> (\<open>None\<close> is \<^verbatim>\<open>null\<close>)
  \<^item> \<open>pw_waitForTimeout ms\<close>: \<^verbatim>\<open>page.waitForTimeout(ms)\<close>, which lets the page go on
  \<^item> \<open>pw_locator_all s\<close>: the number of elements in \<^verbatim>\<open>page.locator(s).all()\<close>
  \<^item> \<open>pw_first_isVisible s\<close>, \<open>pw_first_click s\<close>: \<^verbatim>\<open>isVisible()\<close> and \<^verbatim>\<open>click()\<close> on
    \<^verbatim>\<open>page.locator(s).first()\<close>
\<close>

record 'p playwright =
  pw_waitForSelector :: "string \<Rightarrow> nat \<Rightarrow> 'p \<Rightarrow> unit completion \<times> 'p"
  pw_fill :: "string \<Rightarrow> string \<Rightarrow> 'p \<Rightarrow> unit completion \<times> 'p"
  pw_click :: "string \<Rightarrow> 'p \<Rightarrow> unit completion \<times> 'p"
  pw_textContent :: "string \<Rightarrow> 'p \<Rightarrow> string option completion \<times> 'p"
  pw_waitForTimeout :: "nat \<Rightarrow> 'p \<Rightarrow> 'p"
  pw_locator_all :: "string \<Rightarrow> 'p \<Rightarrow> nat"
  pw_first_isVisible :: "string \<Rightarrow> 'p \<Rightarrow> bool"
  pw_first_click :: "string \<Rightarrow> 'p \<Rightarrow> unit completion \<times> 'p"

text \<open>
  The state of a test is the page together with the list of the calls made to the
  library so far, in order.
\<close>

datatype call =
    WaitForSelector string nat
  | Fill string string
  | Click string
  | TextContent string
  | WaitForTimeout nat
  | LocatorAll string
  | FirstIsVisible string
  | FirstClick string

record 'p browser =
  calls :: "call list"
  dom :: 'p

type_synonym ('p, 'a) action = "'p browser \<Rightarrow> 'a completion \<times> 'p browser"

definition perform :: "call \<Rightarrow> ('p \<Rightarrow> 'a completion \<times> 'p) \<Rightarrow> ('p, 'a) action" where
  "perform c f b = (case f (dom b) of (r, d) \<Rightarrow> (r, \<lparr>calls = calls b @ [c], dom = d\<rparr>))"

text \<open>
  \<^verbatim>\<open>await m; ...\<close>: when the awaited call throws, the rest is skipped and the error
  propagates, with the page as the failed call left it.
\<close>

definition bind :: "('p, 'a) action \<Rightarrow> ('a \<Rightarrow> ('p, 'b) action) \<Rightarrow> ('p, 'b) action" where
  "bind m f b = (case m b of (Normal a, b1) \<Rightarrow> f a b1 | (Throw e, b1) \<Rightarrow> (Throw e, b1))"

definition return :: "'a \<Rightarrow> ('p, 'a) action" where
  "return a b = (Normal a, b)"

definition page_waitForSelector :: "'p playwright \<Rightarrow> string \<Rightarrow> nat \<Rightarrow> ('p, unit) action" where
  "page_waitForSelector env selector timeout =
     perform (WaitForSelector selector timeout) (pw_waitForSelector env selector timeout)"

definition page_fill :: "'p playwright \<Rightarrow> string \<Rightarrow> string \<Rightarrow> ('p, unit) action" where
  "page_fill env selector v = perform (Fill selector v) (pw_fill env selector v)"

definition page_click :: "'p playwright \<Rightarrow> string \<Rightarrow> ('p, unit) action" where
  "page_click env selector = perform (Click selector) (pw_click env selector)"

definition page_textContent :: "'p playwright \<Rightarrow> string \<Rightarrow> ('p, string option) action" where
  "page_textContent env selector = perform (TextContent selector) (pw_textContent env selector)"

definition page_waitForTimeout :: "'p playwright \<Rightarrow> nat \<Rightarrow> ('p, unit) action" where
  "page_waitForTimeout env ms =
     perform (WaitForTimeout ms) (\<lambda>d. (Normal (), pw_waitForTimeout env ms d))"

definition locator_all :: "'p playwright \<Rightarrow> string \<Rightarrow> ('p, nat) action" where
  "locator_all env selector =
     perform (LocatorAll selector) (\<lambda>d. (Normal (pw_locator_all env selector d), d))"

definition locator_first_isVisible :: "'p playwright \<Rightarrow> string \<Rightarrow> ('p, bool) action" where
  "locator_first_isVisible env selector =
     perform (FirstIsVisible selector) (\<lambda>d. (Normal (pw_first_isVisible env selector d), d))"

definition locator_first_click :: "'p playwright \<Rightarrow> string \<Rightarrow> ('p, unit) action" where
  "locator_first_click env selector =
     perform (FirstClick selector) (pw_first_click env selector)"

section \<open>BasePage\<close>

text \<open>
  \<^verbatim>\<open>
  async waitForElementVisible(selector, timeout = 30000) {
    await this.page.waitForSelector(selector, { state: 'visible', timeout });
  }
  async isElementVisible(selector) {
    try {
      await this.page.waitForSelector(selector, { state: 'visible', timeout: 5000 });
      return true;
    } catch {
      return false;
    }
  }
  async getElementText(selector) {
    await this.waitForElementVisible(selector);
    const text = await this.page.textContent(selector);
    return text ? text.trim() : '';
  }
  async clickElement(selector) {
    await this.waitForElementVisible(selector);
    await this.page.click(selector);
    await this.page.waitForTimeout(300);
  }
  async fillInput(selector, value) {
    await this.waitForElementVisible(selector);
    await this.page.fill(selector, value);
    await this.page.waitForTimeout(200);
  }
  \<close>
  Every caller of \<^verbatim>\<open>waitForElementVisible\<close> leaves the timeout at its default.
\<close>

definition waitForElementVisible :: "'p playwright \<Rightarrow> string \<Rightarrow> ('p, unit) action" where
  "waitForElementVisible env selector = page_waitForSelector env selector 30000"

definition isElementVisible :: "'p playwright \<Rightarrow> string \<Rightarrow> ('p, bool) action" where
  "isElementVisible env selector b =
     (case page_waitForSelector env selector 5000 b of
        (Normal _, b1) \<Rightarrow> (Normal True, b1)
      | (Throw _, b1) \<Rightarrow> (Normal False, b1))"

definition trimmed_text :: "string option \<Rightarrow> string" where
  "trimmed_text text = (case text of None \<Rightarrow> [] | Some t \<Rightarrow> if t = [] then [] else trim t)"

definition getElementText :: "'p playwright \<Rightarrow> string \<Rightarrow> ('p, string) action" where
  "getElementText env selector =
     bind (waitForElementVisible env selector) (\<lambda>_.
     bind (page_textContent env selector) (\<lambda>text.
     return (trimmed_text text)))"

definition clickElement :: "'p playwright \<Rightarrow> string \<Rightarrow> ('p, unit) action" where
  "clickElement env selector =
     bind (waitForElementVisible env selector) (\<lambda>_.
     bind (page_click env selector) (\<lambda>_.
     page_waitForTimeout env 300))"

definition fillInput :: "'p playwright \<Rightarrow> string \<Rightarrow> string \<Rightarrow> ('p, unit) action" where
  "fillInput env selector v =
     bind (waitForElementVisible env selector) (\<lambda>_.
     bind (page_fill env selector v) (\<lambda>_.
     page_waitForTimeout env 200))"

section \<open>LoginPage\<close>

text \<open>
  \<^verbatim>\<open>
  this.usernameInput = '#user-name';
  this.passwordInput = '#password';
  this.loginButton = '#login-button';

  async enterUsername(username) { await this.fillInput(this.usernameInput, username); }
  async enterPassword(password) { await this.fillInput(this.passwordInput, password); }
  async clickLogin() { await this.clickElement(this.loginButton); }
  async login(username, password) {
    await this.enterUsername(username);
    await this.enterPassword(password);
    await this.clickLogin();
    // Wait for form processing
    await this.page.waitForTimeout(1000);
  }
  \<close>
\<close>

definition usernameInput :: string where "usernameInput = ''#user-name''"
definition passwordInput :: string where "passwordInput = ''#password''"
definition loginButton :: string where "loginButton = ''#login-button''"

definition enterUsername :: "'p playwright \<Rightarrow> string \<Rightarrow> ('p, unit) action" where
  "enterUsername env username = fillInput env usernameInput username"

definition enterPassword :: "'p playwright \<Rightarrow> string \<Rightarrow> ('p, unit) action" where
  "enterPassword env password = fillInput env passwordInput password"

definition clickLogin :: "'p playwright \<Rightarrow> ('p, unit) action" where
  "clickLogin env = clickElement env loginButton"

definition login :: "'p playwright \<Rightarrow> string \<Rightarrow> string \<Rightarrow> ('p, unit) action" where
  "login env username password =
     bind (enterUsername env username) (\<lambda>_.
     bind (enterPassword env password) (\<lambda>_.
     bind (clickLogin env) (\<lambda>_.
     page_waitForTimeout env 1000)))"

text \<open>
  The calls of a login that runs to its end, and the calls among them that are input
  to the page.
\<close>

definition login_calls :: "string \<Rightarrow> string \<Rightarrow> call list" where
  "login_calls username password =
     [WaitForSelector usernameInput 30000, Fill usernameInput username, WaitForTimeout 200,
      WaitForSelector passwordInput 30000, Fill passwordInput password, WaitForTimeout 200,
      WaitForSelector loginButton 30000, Click loginButton, WaitForTimeout 300,
      WaitForTimeout 1000]"

text \<open>
  Making a list of calls on the page, one after the other, each on the page the
  previous one left: a call is the operation of the library it names, the first call
  that throws ends the run with its error, and every call made is logged.
\<close>

fun run_call :: "'p playwright \<Rightarrow> call \<Rightarrow> 'p \<Rightarrow> unit completion \<times> 'p" where
  "run_call env (WaitForSelector s t) d = pw_waitForSelector env s t d"
| "run_call env (Fill s v) d = pw_fill env s v d"
| "run_call env (Click s) d = pw_click env s d"
| "run_call env (TextContent s) d =
     (case pw_textContent env s d of
        (Normal _, d1) \<Rightarrow> (Normal (), d1)
      | (Throw e, d1) \<Rightarrow> (Throw e, d1))"
| "run_call env (WaitForTimeout ms) d = (Normal (), pw_waitForTimeout env ms d)"
| "run_call env (LocatorAll s) d = (Normal (), d)"
| "run_call env (FirstIsVisible s) d = (Normal (), d)"
| "run_call env (FirstClick s) d = pw_first_click env s d"

fun run_calls :: "'p playwright \<Rightarrow> call list \<Rightarrow> ('p, unit) action" where
  "run_calls env [] b = (Normal (), b)"
| "run_calls env (c # cs) b =
     (case run_call env c (dom b) of
        (Normal _, d) \<Rightarrow> run_calls env cs \<lparr>calls = calls b @ [c], dom = d\<rparr>
      | (Throw e, d) \<Rightarrow> (Throw e, \<lparr>calls = calls b @ [c], dom = d\<rparr>))"

fun is_input :: "call \<Rightarrow> bool" where
  "is_input (Fill _ _) = True"
| "is_input (Click _) = True"
| "is_input (FirstClick _) = True"
| "is_input _ = False"

text \<open>A page on which no wait, fill or click of the library fails.\<close>

definition responsive :: "'p playwright \<Rightarrow> bool" where
  "responsive env =
     ((\<forall>s t d. is_Normal (fst (pw_waitForSelector env s t d)))
      \<and> (\<forall>s v d. is_Normal (fst (pw_fill env s v d)))
      \<and> (\<forall>s d. is_Normal (fst (pw_click env s d))))"

section \<open>ProductsPage.getCartItemCount\<close>

text \<open>
  \<^verbatim>\<open>
  this.shoppingCartBadge = '.shopping_cart_badge';

  async getCartItemCount() {
    if (await this.isElementVisible(this.shoppingCartBadge)) {
      const badgeText = await this.getElementText(this.shoppingCartBadge);
      return parseInt(badgeText) || 0;
    }
    return 0;
  }
  \<close>
\<close>

definition shoppingCartBadge :: string where "shoppingCartBadge = ''.shopping_cart_badge''"

definition ProductsPage_getCartItemCount :: "'p playwright \<Rightarrow> ('p, js_integer) action" where
  "ProductsPage_getCartItemCount env =
     bind (isElementVisible env shoppingCartBadge) (\<lambda>visible.
       if visible then
         bind (getElementText env shoppingCartBadge) (\<lambda>badgeText.
         return (or_zero (parseInt badgeText)))
       else return (Integer 0))"

text \<open>
  What the page can do with the badge during the call. The badge is hidden when the
  wait of \<^verbatim>\<open>isElementVisible\<close> for it fails. It shows a text when that wait and the wait
  of \<^verbatim>\<open>getElementText\<close> both find it and its text content is then read. The read fails
  with an error when the first wait finds the badge and then the second wait, or the
  reading of the text content, throws that error.
\<close>

definition badge_hidden :: "'p playwright \<Rightarrow> 'p \<Rightarrow> bool" where
  "badge_hidden env d = is_Throw (fst (pw_waitForSelector env shoppingCartBadge 5000 d))"

definition badge_shows :: "'p playwright \<Rightarrow> 'p \<Rightarrow> string option \<Rightarrow> bool" where
  "badge_shows env d text =
     (case pw_waitForSelector env shoppingCartBadge 5000 d of
        (Throw _, _) \<Rightarrow> False
      | (Normal _, d1) \<Rightarrow>
          (case pw_waitForSelector env shoppingCartBadge 30000 d1 of
             (Throw _, _) \<Rightarrow> False
           | (Normal _, d2) \<Rightarrow> fst (pw_textContent env shoppingCartBadge d2) = Normal text))"

definition badge_read_fails :: "'p playwright \<Rightarrow> 'p \<Rightarrow> js_error \<Rightarrow> bool" where
  "badge_read_fails env d e =
     (case pw_waitForSelector env shoppingCartBadge 5000 d of
        (Throw _, _) \<Rightarrow> False
      | (Normal _, d1) \<Rightarrow>
          (case pw_waitForSelector env shoppingCartBadge 30000 d1 of
             (Throw e', _) \<Rightarrow> e' = e
           | (Normal _, d2) \<Rightarrow> fst (pw_textContent env shoppingCartBadge d2) = Throw e))"

section \<open>CartPage.getCartItemCount and CartPage.clearCart\<close>

text \<open>
  \<^verbatim>\<open>
  this.cartItems = '.cart_item';
  this.removeButtons = '.cart_item .btn_secondary';

  async getCartItemCount() {
    const items = await this.page.locator(this.cartItems).all();
    return items.length;
  }
  async clearCart() {
    // Keep removing items until cart is empty
    while (await this.getCartItemCount() > 0) {
      // Always click the first available remove button
      const removeButton = this.page.locator(this.removeButtons).first();
      if (await removeButton.isVisible()) {
        await removeButton.click();
        // Wait for the item to be removed from DOM
        await this.page.waitForTimeout(700);
      } else {
        break; // No more remove buttons found
      }
    }
  }
  \<close>
  Whether the loop ends depends on the page, so \<open>clearCart\<close> is a partial function: the
  value \<open>None\<close> stands for a loop that runs forever.
\<close>

definition cartItems :: string where "cartItems = ''.cart_item''"
definition removeButtons :: string where "removeButtons = ''.cart_item .btn_secondary''"

definition CartPage_getCartItemCount :: "'p playwright \<Rightarrow> ('p, nat) action" where
  "CartPage_getCartItemCount env = locator_all env cartItems"

partial_function (option) clearCart ::
  "'p playwright \<Rightarrow> 'p browser \<Rightarrow> (unit completion \<times> 'p browser) option" where
  "clearCart env b =
     (case CartPage_getCartItemCount env b of
        (Throw e, b1) \<Rightarrow> Some (Throw e, b1)
      | (Normal n, b1) \<Rightarrow>
          if n > 0 then
            (case locator_first_isVisible env removeButtons b1 of
               (Throw e, b2) \<Rightarrow> Some (Throw e, b2)
             | (Normal visible, b2) \<Rightarrow>
                 if visible then
                   (case locator_first_click env removeButtons b2 of
                      (Throw e, b3) \<Rightarrow> Some (Throw e, b3)
                    | (Normal _, b3) \<Rightarrow>
                        (case page_waitForTimeout env 700 b3 of
                           (Throw e, b4) \<Rightarrow> Some (Throw e, b4)
                         | (Normal _, b4) \<Rightarrow> clearCart env b4))
                 else Some (Normal (), b2))
          else Some (Normal (), b1))"

text \<open>
  What the page shows of the cart, and the precondition on the site: a click on the
  first remove button, when the cart has items and that button is visible, succeeds
  and after the settling wait the cart has one item less.
\<close>

definition cart_count :: "'p playwright \<Rightarrow> 'p \<Rightarrow> nat" where
  "cart_count env d = pw_locator_all env cartItems d"

definition remove_visible :: "'p playwright \<Rightarrow> 'p \<Rightarrow> bool" where
  "remove_visible env d = pw_first_isVisible env removeButtons d"

definition removal_decrements :: "'p playwright \<Rightarrow> bool" where
  "removal_decrements env =
     (\<forall>d. 0 < cart_count env d \<and> remove_visible env d \<longrightarrow>
        (case pw_first_click env removeButtons d of
           (r, d1) \<Rightarrow> r = Normal ()
             \<and> cart_count env (pw_waitForTimeout env 700 d1) = cart_count env d - 1))"

definition remove_always_visible :: "'p playwright \<Rightarrow> bool" where
  "remove_always_visible env = (\<forall>d. 0 < cart_count env d \<longrightarrow> remove_visible env d)"

text \<open>The calls of one round of the loop: read the count, look, click, wait.\<close>

definition clear_round :: "call list" where
  "clear_round =
     [LocatorAll cartItems, FirstIsVisible removeButtons, FirstClick removeButtons,
      WaitForTimeout 700]"

text \<open>
  An action issues the calls \<open>cs\<close> when, from every state, it appends to the calls made
  so far a beginning of \<open>cs\<close>, and all of \<open>cs\<close> when it returns normally.
\<close>

definition issues :: "('p, 'a) action \<Rightarrow> call list \<Rightarrow> bool" where
  "issues m cs =
     (\<forall>b. (\<exists>k. calls (snd (m b)) = calls b @ take k cs)
        \<and> (is_Normal (fst (m b)) \<longrightarrow> calls (snd (m b)) = calls b @ cs))"

section \<open>A concrete runtime for evaluating the helpers\<close>

text \<open>
  A file system with one fixture, \<^verbatim>\<open>products.json\<close>, holding four products (named by
  numbers here), a parser that accepts the text of that file, an empty heap and a
  periodic sequence of random numbers.
\<close>

definition example_products :: "js_value list" where
  "example_products = [Number 1, Number 2, Number 3, Number 4]"

definition example_env :: node_env where
  "example_env =
     \<lparr>dirname = ''/repo/utils'',
      path_join = (\<lambda>ps. foldr (\<lambda>p acc. if acc = [] then p else p @ ''/'' @ acc) ps []),
      readFileSync =
        (\<lambda>p. if p = ''/repo/utils/../fixtures/products.json'' then Normal ''{products}''
              else Throw (JsError ''Error'' ''ENOENT: no such file or directory'')),
      JSON_parse =
        (\<lambda>s. if s = ''{products}'' then Normal (Object [(''products'', Array example_products)])
              else Throw (JsError ''SyntaxError'' ''Unexpected token''))\<rparr>"

definition example_rnd :: "nat \<Rightarrow> rat" where
  "example_rnd k = of_nat (k mod 7) / 7"

definition empty_state :: js_state where
  "empty_state = \<lparr>heap = [], random_calls = 0\<rparr>"

text \<open>A state in which a caller already holds the product array, at reference 0.\<close>

definition shared_state :: js_state where
  "shared_state = \<lparr>heap = [example_products], random_calls = 0\<rparr>"

section \<open>Concrete pages for evaluating the page objects\<close>

text \<open>
  A login page: the state holds the texts of the username and the password field and,
  once the login button has been clicked, the credentials that were submitted.
\<close>

definition login_site :: "((string \<times> string) \<times> (string \<times> string) option) playwright" where
  "login_site =
     \<lparr>pw_waitForSelector = (\<lambda>s t d. (Normal (), d)),
      pw_fill =
        (\<lambda>s v d. case d of
           ((u, p), sub) \<Rightarrow>
             (Normal (),
              (if s = usernameInput then (v, p) else if s = passwordInput then (u, v) else (u, p)),
              sub)),
      pw_click =
        (\<lambda>s d. case d of
           ((u, p), sub) \<Rightarrow> (Normal (), (u, p), if s = loginButton then Some (u, p) else sub)),
      pw_textContent = (\<lambda>s d. (Normal None, d)),
      pw_waitForTimeout = (\<lambda>ms d. d),
      pw_locator_all = (\<lambda>s d. 0),
      pw_first_isVisible = (\<lambda>s d. False),
      pw_first_click = (\<lambda>s d. (Normal (), d))\<rparr>"

text \<open>
  A page whose only element is the cart badge: the state is \<open>None\<close> when the badge is
  not rendered and its text content otherwise. Waiting for an element that is not
  there ends in a timeout.
\<close>

definition timeout_error :: js_error where
  "timeout_error = JsError ''TimeoutError'' ''Timeout exceeded''"

definition badge_page :: "string option playwright" where
  "badge_page =
     \<lparr>pw_waitForSelector = (\<lambda>s t d. (if d = None then Throw timeout_error else Normal (), d)),
      pw_fill = (\<lambda>s v d. (Throw timeout_error, d)),
      pw_click = (\<lambda>s d. (Throw timeout_error, d)),
      pw_textContent = (\<lambda>s d. (if d = None then Throw timeout_error else Normal d, d)),
      pw_waitForTimeout = (\<lambda>ms d. d),
      pw_locator_all = (\<lambda>s d. 0),
      pw_first_isVisible = (\<lambda>s d. False),
      pw_first_click = (\<lambda>s d. (Throw timeout_error, d))\<rparr>"

text \<open>
  A page whose badge is rendered (state \<open>True\<close>) and is gone once a wait has seen it, as
  when the page renders again without it.
\<close>

definition vanishing_badge :: "bool playwright" where
  "vanishing_badge =
     \<lparr>pw_waitForSelector = (\<lambda>s t d. (if d then Normal () else Throw timeout_error, False)),
      pw_fill = (\<lambda>s v d. (Throw timeout_error, d)),
      pw_click = (\<lambda>s d. (Throw timeout_error, d)),
      pw_textContent = (\<lambda>s d. (if d then Normal (Some ''1'') else Throw timeout_error, d)),
      pw_waitForTimeout = (\<lambda>ms d. d),
      pw_locator_all = (\<lambda>s d. 0),
      pw_first_isVisible = (\<lambda>s d. False),
      pw_first_click = (\<lambda>s d. (Throw timeout_error, d))\<rparr>"

text \<open>
  A cart page: the state lists the items of the cart, each by whether its remove button
  is visible. A click on the first remove button removes the first item; when that
  button is not visible the click ends in a timeout.
\<close>

definition cart_site :: "bool list playwright" where
  "cart_site =
     \<lparr>pw_waitForSelector = (\<lambda>s t d. (Normal (), d)),
      pw_fill = (\<lambda>s v d. (Throw timeout_error, d)),
      pw_click = (\<lambda>s d. (Throw timeout_error, d)),
      pw_textContent = (\<lambda>s d. (Normal None, d)),
      pw_waitForTimeout = (\<lambda>ms d. d),
      pw_locator_all = (\<lambda>s d. length d),
      pw_first_isVisible = (\<lambda>s d. case d of [] \<Rightarrow> False | v # _ \<Rightarrow> v),
      pw_first_click =
        (\<lambda>s d. case d of
                  [] \<Rightarrow> (Throw timeout_error, d)
                | v # r \<Rightarrow> if v then (Normal (), r) else (Throw timeout_error, d))\<rparr>"

section \<open>Properties of productNameToDataTest\<close>

lemma isWhiteSpace_toLowerCase_char [simp]:
  "isWhiteSpace (toLowerCase_char c) = isWhiteSpace c"
  unfolding isWhiteSpace_def toLowerCase_char_def Let_def
  by (auto simp: of_char_of)

lemma toLowerCase_char_punct [simp]:
  "toLowerCase_char c = CHR ''('' \<longleftrightarrow> c = CHR ''(''"
  "toLowerCase_char c = CHR '')'' \<longleftrightarrow> c = CHR '')''"
  "toLowerCase_char c = CHR ''.'' \<longleftrightarrow> c = CHR ''.''"
proof -
  have e: "\<And>d. (toLowerCase_char c = d) = ((of_char (toLowerCase_char c) :: nat) = of_char d)"
    by simp
  have f: "\<And>d. (c = d) = ((of_char c :: nat) = of_char d)"
    by simp
  show "toLowerCase_char c = CHR ''('' \<longleftrightarrow> c = CHR ''(''"
    unfolding e f unfolding toLowerCase_char_def Let_def by (auto simp: of_char_of)
  show "toLowerCase_char c = CHR '')'' \<longleftrightarrow> c = CHR '')''"
    unfolding e f unfolding toLowerCase_char_def Let_def by (auto simp: of_char_of)
  show "toLowerCase_char c = CHR ''.'' \<longleftrightarrow> c = CHR ''.''"
    unfolding e f unfolding toLowerCase_char_def Let_def by (auto simp: of_char_of)
qed

lemma dropWhile_ws_toLowerCase:
  "dropWhile isWhiteSpace (toLowerCase s) = toLowerCase (dropWhile isWhiteSpace s)"
  by (induction s) (simp_all add: toLowerCase_def)

lemma productNameToDataTest_Nil [simp]: "productNameToDataTest [] = []"
  by (simp add: productNameToDataTest_def toLowerCase_def remove_parens_def remove_periods_def)

lemma productNameToDataTest_Cons:
  "productNameToDataTest (c # cs) =
     (if isWhiteSpace c then CHR ''-'' # productNameToDataTest (dropWhile isWhiteSpace cs)
      else if c = CHR ''('' \<or> c = CHR '')'' \<or> c = CHR ''.'' then productNameToDataTest cs
      else toLowerCase_char c # productNameToDataTest cs)"
  using dropWhile_ws_toLowerCase [of cs]
  by (simp add: productNameToDataTest_def toLowerCase_def remove_parens_def remove_periods_def)

lemma normalizeProductKey_from_eq:
  "normalizeProductKey_from in_run s =
     productNameToDataTest (if in_run then dropWhile isWhiteSpace s else s)"
  by (induction s arbitrary: in_run) (simp_all add: productNameToDataTest_Cons)

text \<open>
  Claim C2. \<^verbatim>\<open>productNameToDataTest\<close> is a function of its argument alone, and on every
  name it computes what the specification's \<^verbatim>\<open>normalizeProductKey\<close> describes:
  lower-casing, one hyphen for every white-space run, no parentheses, no periods. On
  the two names of the specification it gives the two keys of the specification.
\<close>

theorem productNameToDataTest_normalizes:
  "productNameToDataTest name = normalizeProductKey name
   \<and> productNameToDataTest ''Sauce Labs Bike Light'' = ''sauce-labs-bike-light''
   \<and> productNameToDataTest ''Test.allTheThings() T-Shirt (Red)'' = ''testallthethings-t-shirt-red''"
proof (intro conjI)
  show "productNameToDataTest name = normalizeProductKey name"
    by (simp add: normalizeProductKey_def normalizeProductKey_from_eq)
  show "productNameToDataTest ''Sauce Labs Bike Light'' = ''sauce-labs-bike-light''"
    by code_simp
  show "productNameToDataTest ''Test.allTheThings() T-Shirt (Red)'' = ''testallthethings-t-shirt-red''"
    by code_simp
qed

section \<open>Properties of currencyToNumber\<close>

lemma negate_eq_NaN [simp]: "negate v = NaN \<longleftrightarrow> v = NaN"
  by (cases v) (simp_all add: negate_def)

lemma parse_unsigned_decimal_NaN:
  "parse_unsigned_decimal u = NaN \<longleftrightarrow> \<not> starts_unsigned_decimal u"
proof (cases "prefix ''Infinity'' u")
  case True
  then show ?thesis
    by (simp add: parse_unsigned_decimal_def starts_unsigned_decimal_def)
next
  case noinf: False
  show ?thesis
  proof (cases u)
    case Nil
    then show ?thesis
      by (simp add: parse_unsigned_decimal_def starts_unsigned_decimal_def)
  next
    case (Cons c r)
    show ?thesis
    proof (cases "isDigit c")
      case True
      with Cons noinf show ?thesis
        by (simp add: parse_unsigned_decimal_def starts_unsigned_decimal_def Let_def
            split: list.splits)
    next
      case False
      with Cons noinf show ?thesis
        by (cases r)
          (simp_all add: parse_unsigned_decimal_def starts_unsigned_decimal_def Let_def)
    qed
  qed
qed

lemma parseFloat_NaN:
  "parseFloat s = NaN \<longleftrightarrow> \<not> starts_decimal_literal (dropWhile isWhiteSpace s)"
proof (cases "dropWhile isWhiteSpace s")
  case Nil
  then show ?thesis
    by (simp add: parseFloat_def starts_decimal_literal_def del: dropWhile_eq_Nil_conv)
next
  case (Cons c r)
  then show ?thesis
    by (simp add: parseFloat_def starts_decimal_literal_def parse_unsigned_decimal_NaN)
qed

lemma parseFloat_29_99: "parseFloat ''29.99'' = Num (2999 / 100)"
  by (simp add: parseFloat_def isWhiteSpace_def parse_unsigned_decimal_def isDigit_def
      digits_value_def digit_value_def pow10_def parse_exponent_def)

lemma parseFloat_0_00: "parseFloat ''0.00'' = Num 0"
  by (simp add: parseFloat_def isWhiteSpace_def parse_unsigned_decimal_def isDigit_def
      digits_value_def digit_value_def pow10_def parse_exponent_def)

lemma parseFloat_free: "parseFloat ''free'' = NaN"
  by (simp add: parseFloat_def isWhiteSpace_def parse_unsigned_decimal_def isDigit_def)

lemma parseFloat_12abc: "parseFloat ''12abc'' = Num 12"
  by (simp add: parseFloat_def isWhiteSpace_def parse_unsigned_decimal_def isDigit_def
      digits_value_def digit_value_def pow10_def parse_exponent_def)

text \<open>
  Claim C1, as stated, at the input \<^verbatim>\<open>"free"\<close>: no dollar sign is there to remove,
  \<^verbatim>\<open>parseFloat\<close> finds no decimal literal and returns \<open>NaN\<close>. The call completes
  normally with that value; nothing is thrown.
\<close>

theorem currencyToNumber_free_returns_NaN:
  "currencyToNumber ''free'' = Normal NaN"
  by (simp add: currencyToNumber_def parseFloat_free)

text \<open>
  Claim C1, amended. \<^verbatim>\<open>currencyToNumber\<close> removes the first dollar sign and returns
  what \<^verbatim>\<open>parseFloat\<close> reads from the rest: \<open>29.99\<close> for \<^verbatim>\<open>"$29.99"\<close> and \<open>0\<close> for
  \<^verbatim>\<open>"$0.00"\<close>; text after a decimal literal is ignored (\<open>12\<close> for \<^verbatim>\<open>"$12abc"\<close>). It
  completes normally on every string, and its value is \<open>NaN\<close> exactly when the rest,
  after leading white space, does not begin with a decimal literal.
\<close>

theorem currencyToNumber_parses_prefix:
  "currencyToNumber ''$29.99'' = Normal (Num (2999 / 100))
   \<and> currencyToNumber ''$0.00'' = Normal (Num 0)
   \<and> currencyToNumber ''$12abc'' = Normal (Num 12)
   \<and> is_Normal (currencyToNumber s)
   \<and> (currencyToNumber s = Normal NaN) =
       (\<not> starts_decimal_literal (dropWhile isWhiteSpace (replace_first (CHR ''$'') [] s)))"
  by (simp add: currencyToNumber_def parseFloat_29_99 parseFloat_0_00 parseFloat_12abc
      parseFloat_NaN)

section \<open>Properties of loadFixture\<close>

lemma FixtureLoadError_load_failure: "FixtureLoadError filename (load_failure filename error)"
  by (simp add: FixtureLoadError_def load_failure_def)

text \<open>
  Claim C5. \<^verbatim>\<open>loadFixture\<close> throws exactly when the fixture file cannot be read or its
  text is not JSON; the error it throws is then the fixture-load error naming the
  fixture. In every other case it returns what \<^verbatim>\<open>JSON.parse\<close> made of the whole file.
  The result is either the error or the parsed value, never a part of the data.
\<close>

theorem loadFixture_fails_iff:
  "is_Throw (loadFixture env filename) = (fixture_missing env filename \<or> fixture_malformed env filename)
   \<and> (is_Throw (loadFixture env filename) \<longrightarrow>
        FixtureLoadError filename (the_error (loadFixture env filename)))
   \<and> (\<not> is_Throw (loadFixture env filename) \<longrightarrow>
        (\<exists>data. readFileSync env (fixture_path env filename) = Normal data
           \<and> loadFixture env filename = JSON_parse env data))"
  by (auto simp: loadFixture_def fixture_missing_def fixture_malformed_def
      FixtureLoadError_load_failure split: completion.splits)

lemma example_paths:
  "fixture_path example_env ''products'' = ''/repo/utils/../fixtures/products.json''"
  "fixture_path example_env ''users'' = ''/repo/utils/../fixtures/users.json''"
  by (simp_all add: fixture_path_def example_env_def)

lemma example_loads:
  "loadFixture example_env ''products'' = Normal (Object [(''products'', Array example_products)])"
  "loadFixture example_env ''users'' =
     Throw (JsError ''Error'' ''Failed to load fixture users: ENOENT: no such file or directory'')"
proof -
  have r: "readFileSync example_env ''/repo/utils/../fixtures/products.json'' = Normal ''{products}''"
    "readFileSync example_env ''/repo/utils/../fixtures/users.json'' =
       Throw (JsError ''Error'' ''ENOENT: no such file or directory'')"
    "JSON_parse example_env ''{products}'' = Normal (Object [(''products'', Array example_products)])"
    by (simp_all add: example_env_def)
  show "loadFixture example_env ''products'' = Normal (Object [(''products'', Array example_products)])"
    by (simp add: loadFixture_def example_paths r)
  show "loadFixture example_env ''users'' =
     Throw (JsError ''Error'' ''Failed to load fixture users: ENOENT: no such file or directory'')"
    by (simp add: loadFixture_def example_paths r load_failure_def)
qed

lemma example_missing:
  "fixture_missing example_env ''users''"
  "\<not> fixture_missing example_env ''products''"
  "\<not> fixture_malformed example_env ''products''"
  by (simp_all add: fixture_missing_def fixture_malformed_def example_paths, simp_all add: example_env_def)

text \<open>
  In the concrete runtime the fixture \<^verbatim>\<open>users\<close> is missing and loading it throws the
  fixture-load error; the fixture \<^verbatim>\<open>products\<close> is there and well-formed and is returned.
\<close>

theorem loadFixture_fails_iff_witness:
  "fixture_missing example_env ''users''
   \<and> FixtureLoadError ''users'' (the_error (loadFixture example_env ''users''))
   \<and> \<not> fixture_missing example_env ''products''
   \<and> \<not> fixture_malformed example_env ''products''
   \<and> loadFixture example_env ''products'' = Normal (Object [(''products'', Array example_products)])"
  using loadFixture_fails_iff [of example_env "''users''"]
    loadFixture_fails_iff [of example_env "''products''"]
  by (simp add: example_loads example_missing)

section \<open>Properties of generateRandomString\<close>

lemma length_characters: "length characters = 62"
  by (simp add: characters_def)

lemma characters_alphanumeric: "c \<in> set characters \<Longrightarrow> alphanumeric c"
  by (auto simp: characters_def alphanumeric_def)

lemma charAt_random:
  fixes r :: rat
  assumes "0 \<le> r" "r < 1"
  shows "\<exists>c \<in> set characters. charAt characters \<lfloor>r * of_nat (length characters)\<rfloor> = [c]"
proof -
  have "0 \<le> r * 62" using assms by simp
  then have lo: "0 \<le> \<lfloor>r * 62\<rfloor>" by simp
  have "r * 62 < 62" using assms by simp
  then have hi: "\<lfloor>r * 62\<rfloor> < 62" by (simp add: floor_less_iff)
  from lo hi have "nat \<lfloor>r * 62\<rfloor> < 62"
    by linarith
  then have "nat \<lfloor>r * 62\<rfloor> < length characters"
    by (simp add: length_characters)
  then have "characters ! nat \<lfloor>r * 62\<rfloor> \<in> set characters"
    by (rule nth_mem)
  with lo hi show ?thesis
    by (simp add: charAt_def length_characters)
qed

lemma generateRandomString_loop_result:
  assumes u: "unit_interval rnd"
  shows "length (fst (generateRandomString_loop rnd len i result st)) = length result + nat (len - i)
         \<and> set (fst (generateRandomString_loop rnd len i result st)) \<subseteq> set result \<union> set characters"
  using u
proof (induction rnd len i result st rule: generateRandomString_loop.induct)
  case (1 rnd len i result st)
  show ?case
  proof (cases "i < len")
    case False
    then show ?thesis by simp
  next
    case True
    let ?r = "rnd (random_calls st)"
    let ?st = "st\<lparr>random_calls := Suc (random_calls st)\<rparr>"
    have m: "Math_random rnd st = (?r, ?st)"
      by (simp add: Math_random_def)
    from \<open>unit_interval rnd\<close> have "0 \<le> ?r" "?r < 1"
      by (simp_all add: unit_interval_def)
    then obtain c where c: "c \<in> set characters"
      "charAt characters \<lfloor>?r * of_nat (length characters)\<rfloor> = [c]"
      using charAt_random by blast
    have step: "generateRandomString_loop rnd len i result st =
        generateRandomString_loop rnd len (i + 1) (result @ [c]) ?st"
      using True m c(2) by (subst generateRandomString_loop.simps) simp
    have ih: "length (fst (generateRandomString_loop rnd len (i + 1) (result @ [c]) ?st))
                = length (result @ [c]) + nat (len - (i + 1))
              \<and> set (fst (generateRandomString_loop rnd len (i + 1) (result @ [c]) ?st))
                  \<subseteq> set (result @ [c]) \<union> set characters"
      using "1.IH" [OF True m [symmetric] \<open>unit_interval rnd\<close>] c(2) by simp
    from ih c(1) True show ?thesis
      unfolding step by auto
  qed
qed

text \<open>
  Claim C10. When \<^verbatim>\<open>Math.random\<close> keeps its contract, \<^verbatim>\<open>generateRandomString\<close> returns
  for every length \<open>n \<ge> 0\<close> a string of exactly \<open>n\<close> characters, and for a call without
  argument a string of 10 characters; every character comes from the 62 characters
  A-Z, a-z, 0-9.
\<close>

theorem generateRandomString_alphanumeric:
  assumes "unit_interval rnd" and "0 \<le> n"
  shows "length (fst (generateRandomString rnd (Some n) st)) = nat n
         \<and> (\<forall>c \<in> set (fst (generateRandomString rnd (Some n) st)). c \<in> set characters \<and> alphanumeric c)
         \<and> length (fst (generateRandomString rnd None st)) = 10
         \<and> (\<forall>c \<in> set (fst (generateRandomString rnd None st)). c \<in> set characters \<and> alphanumeric c)
         \<and> length characters = 62"
  using generateRandomString_loop_result [OF assms(1), of n 0 "[]" st]
    generateRandomString_loop_result [OF assms(1), of 10 0 "[]" st] assms(2)
  by (auto simp: generateRandomString_def length_characters characters_alphanumeric)

lemma example_rnd_unit: "unit_interval example_rnd"
  unfolding unit_interval_def example_rnd_def
proof (intro allI conjI)
  fix k :: nat
  show "(0::rat) \<le> of_nat (k mod 7) / 7" by simp
  have "k mod 7 < 7" by simp
  then have "(of_nat (k mod 7) :: rat) < 7" by (metis of_nat_less_iff of_nat_numeral)
  then show "(of_nat (k mod 7) :: rat) / 7 < 1" by simp
qed

lemma example_string: "fst (generateRandomString example_rnd (Some 3) empty_state) = ''AIR''"
  by code_simp

text \<open>With the periodic random numbers 0, 1/7, 2/7 the three characters are A, I and R.\<close>

theorem generateRandomString_alphanumeric_witness:
  "unit_interval example_rnd \<and> (0::int) \<le> 3
   \<and> fst (generateRandomString example_rnd (Some 3) empty_state) = ''AIR''
   \<and> length (fst (generateRandomString example_rnd (Some 3) empty_state)) = nat 3
   \<and> length (fst (generateRandomString example_rnd None empty_state)) = 10"
  using generateRandomString_alphanumeric [OF example_rnd_unit, of 3 empty_state]
  by (simp add: example_rnd_unit example_string)

section \<open>Properties of getRandomProducts\<close>

lemma sort_insert_mset:
  "sort_insert comparefn x ys s = (zs, s') \<Longrightarrow> mset zs = add_mset x (mset ys)"
  by (induction ys arbitrary: s zs s') (auto split: prod.splits if_splits)

lemma sort_list_mset:
  "sort_list comparefn xs s = (ys, s') \<Longrightarrow> mset ys = mset xs"
  by (induction xs arbitrary: s ys s') (auto split: prod.splits dest: sort_insert_mset)

lemma random_comparefn_heap:
  "random_comparefn rnd a b st = (v, st') \<Longrightarrow> heap st' = heap st"
  by (auto simp: random_comparefn_def Math_random_def)

lemma sort_insert_heap:
  "sort_insert (random_comparefn rnd) x ys st = (zs, st') \<Longrightarrow> heap st' = heap st"
proof (induction ys arbitrary: st zs st')
  case Nil
  then show ?case by simp
next
  case (Cons y ys)
  obtain v st1 where c: "random_comparefn rnd x y st = (v, st1)"
    by (cases "random_comparefn rnd x y st")
  then have h: "heap st1 = heap st"
    by (rule random_comparefn_heap)
  show ?case
  proof (cases "v < 0")
    case True
    with Cons.prems c h show ?thesis by simp
  next
    case False
    obtain ws st2 where r: "sort_insert (random_comparefn rnd) x ys st1 = (ws, st2)"
      by (cases "sort_insert (random_comparefn rnd) x ys st1")
    from Cons.IH [OF r] h have "heap st2 = heap st" by simp
    with Cons.prems c r False show ?thesis by simp
  qed
qed

lemma sort_list_heap:
  "sort_list (random_comparefn rnd) xs st = (ys, st') \<Longrightarrow> heap st' = heap st"
proof (induction xs arbitrary: st ys st')
  case Nil
  then show ?case by simp
next
  case (Cons x xs)
  obtain ws st1 where r: "sort_list (random_comparefn rnd) xs st = (ws, st1)"
    by (cases "sort_list (random_comparefn rnd) xs st")
  from Cons.IH [OF r] have h: "heap st1 = heap st" .
  from Cons.prems r have "sort_insert (random_comparefn rnd) x ws st1 = (ys, st')"
    by simp
  from sort_insert_heap [OF this] h show ?case by simp
qed

lemma Array_sort_result:
  "\<exists>ys st'. Array_sort (random_comparefn rnd) a st = (a, st')
     \<and> heap st' = (heap st)[a := ys] \<and> mset ys = mset (heap st ! a)"
proof -
  obtain ys st1 where r: "sort_list (random_comparefn rnd) (heap st ! a) st = (ys, st1)"
    by (cases "sort_list (random_comparefn rnd) (heap st ! a) st")
  have h: "heap st1 = heap st"
    using r by (rule sort_list_heap)
  have m: "mset ys = mset (heap st ! a)"
    using r by (rule sort_list_mset)
  have "Array_sort (random_comparefn rnd) a st = (a, st1\<lparr>heap := (heap st)[a := ys]\<rparr>)"
    using r h by (simp add: Array_sort_def)
  moreover have "heap (st1\<lparr>heap := (heap st)[a := ys]\<rparr>) = (heap st)[a := ys]"
    by simp
  ultimately show ?thesis
    using m by blast
qed

text \<open>The heap after the body: the old arrays, the shuffled copy, the slice.\<close>

lemma getRandomProducts_from_heap:
  assumes "products < length (heap st)"
  shows "\<exists>ys st'. getRandomProducts_from rnd cnt products st = (Suc (length (heap st)), st')
     \<and> mset ys = mset (heap st ! products)
     \<and> heap st' = heap st @ [ys, slice0 ys (min cnt (int (length (heap st ! products))))]"
proof -
  let ?st1 = "st\<lparr>heap := heap st @ [heap st ! products]\<rparr>"
  let ?copy = "length (heap st)"
  have a: "alloc (heap st ! products) st = (?copy, ?st1)"
    by (simp add: alloc_def)
  obtain ys st2 where s: "Array_sort (random_comparefn rnd) ?copy ?st1 = (?copy, st2)"
    and h2: "heap st2 = (heap ?st1)[?copy := ys]" and m: "mset ys = mset (heap ?st1 ! ?copy)"
    using Array_sort_result [of rnd ?copy ?st1] by blast
  from h2 have h2': "heap st2 = heap st @ [ys]" by simp
  from m have m': "mset ys = mset (heap st ! products)" by simp
  have p: "heap st2 ! products = heap st ! products"
    using assms h2' by (simp add: nth_append)
  have c: "heap st2 ! ?copy = ys"
    using h2' by simp
  show ?thesis
    using a s h2' m' p c by (simp add: getRandomProducts_from_def alloc_def)
qed


lemma getRandomProducts_Array:
  assumes "getProducts env = Normal (Array xs)"
  shows "\<exists>ys st'. getRandomProducts env rnd count_arg st = (Normal (length (heap st) + 2), st')
     \<and> mset ys = mset xs
     \<and> heap st' = heap st @ [xs, ys,
           slice0 ys (min (case count_arg of None \<Rightarrow> 3 | Some c \<Rightarrow> c) (int (length xs)))]"
proof -
  let ?cnt = "case count_arg of None \<Rightarrow> 3 | Some c \<Rightarrow> c"
  let ?st1 = "st\<lparr>heap := heap st @ [xs]\<rparr>"
  let ?products = "length (heap st)"
  have a: "alloc xs st = (?products, ?st1)"
    by (simp add: alloc_def)
  have "?products < length (heap ?st1)" by simp
  from getRandomProducts_from_heap [OF this, of rnd ?cnt]
  obtain ys st' where f: "getRandomProducts_from rnd ?cnt ?products ?st1 = (Suc (length (heap ?st1)), st')"
    and m: "mset ys = mset (heap ?st1 ! ?products)"
    and h: "heap st' = heap ?st1 @ [ys, slice0 ys (min ?cnt (int (length (heap ?st1 ! ?products))))]"
    by blast
  have "getRandomProducts env rnd count_arg st = (Normal (length (heap st) + 2), st')"
    using assms a f by (simp add: getRandomProducts_def)
  moreover have "mset ys = mset xs" using m by simp
  moreover have "heap st' = heap st @ [xs, ys, slice0 ys (min ?cnt (int (length xs)))]"
    using h by simp
  ultimately show ?thesis by blast
qed

lemma getRandomProducts_String:
  assumes "getProducts env = Normal (String s)"
  shows "\<exists>ys zs st'. getRandomProducts env rnd count_arg st = (Normal (length (heap st) + 1), st')
     \<and> heap st' = heap st @ [ys, zs]"
proof -
  let ?cnt = "case count_arg of None \<Rightarrow> 3 | Some c \<Rightarrow> c"
  let ?cs = "map (\<lambda>c. String [c]) s"
  let ?st1 = "st\<lparr>heap := heap st @ [?cs]\<rparr>"
  let ?copy = "length (heap st)"
  have a: "alloc ?cs st = (?copy, ?st1)"
    by (simp add: alloc_def)
  obtain ys st2 where srt: "Array_sort (random_comparefn rnd) ?copy ?st1 = (?copy, st2)"
    and h2: "heap st2 = (heap ?st1)[?copy := ys]"
    using Array_sort_result [of rnd ?copy ?st1] by blast
  from h2 have h2': "heap st2 = heap st @ [ys]" by simp
  let ?zs = "slice0 (heap st2 ! ?copy) (min ?cnt (int (length s)))"
  have "getRandomProducts env rnd count_arg st
          = (Normal (length (heap st) + 1), st2\<lparr>heap := heap st2 @ [?zs]\<rparr>)"
    using assms a srt h2' by (simp add: getRandomProducts_def alloc_def)
  moreover have "heap (st2\<lparr>heap := heap st2 @ [?zs]\<rparr>) = heap st @ [ys, ?zs]"
    using h2' by simp
  ultimately show ?thesis by blast
qed

lemma getRandomProducts_other:
  assumes "getProducts env = r" "\<forall>xs. r \<noteq> Normal (Array xs)" "\<forall>s. r \<noteq> Normal (String s)"
  shows "snd (getRandomProducts env rnd count_arg st) = st"
  using assms by (auto simp: getRandomProducts_def Let_def split: completion.splits js_value.splits)

lemma slice0_nonneg:
  assumes "0 \<le> n" "length ys = length xs"
  shows "slice0 ys (min n (int (length xs))) = take (nat n) ys"
  using assms by (auto simp: slice0_def Let_def min_def max_def)

lemma mset_take_subset: "mset (take k ys) \<subseteq># mset ys"
proof -
  have "mset ys = mset (take k ys) + mset (drop k ys)"
    by (metis append_take_drop_id mset_append)
  then show ?thesis by simp
qed


lemma example_getProducts: "getProducts example_env = Normal (Array example_products)"
  by (simp add: getProducts_def example_loads get_property_def)


text \<open>
  Claim C3. When the fixture holds the product array \<open>products\<close> and \<open>n \<ge> 0\<close>,
  \<^verbatim>\<open>getRandomProducts(n)\<close> returns an array of exactly \<open>min n |products|\<close> elements, all
  drawn from \<open>products\<close> without replacement: no product occurs more often in the result
  than in \<open>products\<close>, so the result of a collection without duplicates has none. When
  \<open>n\<close> is at least the number of products the result has exactly the products of the
  collection, and nothing is thrown.
\<close>

theorem getRandomProducts_samples:
  assumes "getProducts env = Normal (Array products)" and "0 \<le> n"
  shows "\<exists>r st'. getRandomProducts env rnd (Some n) st = (Normal r, st')
          \<and> length (heap st' ! r) = min (nat n) (length products)
          \<and> mset (heap st' ! r) \<subseteq># mset products
          \<and> set (heap st' ! r) \<subseteq> set products
          \<and> (distinct products \<longrightarrow> distinct (heap st' ! r))
          \<and> (int (length products) \<le> n \<longrightarrow>
                mset (heap st' ! r) = mset products \<and> set (heap st' ! r) = set products)"
proof -
  from getRandomProducts_Array [OF assms(1), of rnd "Some n" st]
  obtain ys st' where g: "getRandomProducts env rnd (Some n) st = (Normal (length (heap st) + 2), st')"
    and m: "mset ys = mset products"
    and h: "heap st' = heap st @ [products, ys, slice0 ys (min n (int (length products)))]"
    by (auto simp del: mset_eq_setD)
  let ?r = "length (heap st) + 2"
  from m have len: "length ys = length products"
    by (rule mset_eq_length)
  have res: "heap st' ! ?r = take (nat n) ys"
    using h slice0_nonneg [OF assms(2) len] by (simp add: nth_append)
  have 1: "length (heap st' ! ?r) = min (nat n) (length products)"
    using res len by simp
  have 2: "mset (heap st' ! ?r) \<subseteq># mset products"
    using res m mset_take_subset [of "nat n" ys] by simp
  have 3: "set (heap st' ! ?r) \<subseteq> set products"
    using set_mset_mono [OF 2] by simp
  have "distinct products \<Longrightarrow> distinct ys"
    using mset_eq_imp_distinct_iff [OF m] by blast
  then have 4: "distinct products \<longrightarrow> distinct (heap st' ! ?r)"
    unfolding res by (blast intro: distinct_take)
  have 5: "int (length products) \<le> n \<longrightarrow>
             mset (heap st' ! ?r) = mset products \<and> set (heap st' ! ?r) = set products"
  proof
    assume "int (length products) \<le> n"
    then have "take (nat n) ys = ys" using len by simp
    with res have "heap st' ! ?r = ys" by simp
    moreover from m have "set ys = set products" by (rule mset_eq_setD)
    ultimately show "mset (heap st' ! ?r) = mset products \<and> set (heap st' ! ?r) = set products"
      using m by simp
  qed
  show ?thesis
    by (intro exI [of _ ?r] exI [of _ st'] conjI) (fact g 1 2 3 4 5)+
qed


lemma example_sample:
  "getRandomProducts example_env example_rnd (Some 2) empty_state
     = (Normal 2, \<lparr>heap = [example_products, [Number 4, Number 1, Number 3, Number 2],
                              [Number 4, Number 1]], random_calls = 5\<rparr>)"
  by code_simp

text \<open>
  Two of the four products of the concrete fixture: the heap holds the fixture array,
  the shuffled copy and the result, the products 4 and 1.
\<close>

theorem getRandomProducts_samples_witness:
  "getProducts example_env = Normal (Array example_products) \<and> (0::int) \<le> 2
   \<and> distinct example_products
   \<and> getRandomProducts example_env example_rnd (Some 2) empty_state
       = (Normal 2, \<lparr>heap = [example_products, [Number 4, Number 1, Number 3, Number 2],
                                [Number 4, Number 1]], random_calls = 5\<rparr>)
   \<and> (\<exists>r st'. getRandomProducts example_env example_rnd (Some 2) empty_state = (Normal r, st')
          \<and> length (heap st' ! r) = 2 \<and> distinct (heap st' ! r)
          \<and> set (heap st' ! r) \<subseteq> set example_products)"
proof -
  have n: "(0::int) \<le> 2" by simp
  have d: "distinct example_products" by (simp add: example_products_def)
  have l: "min (nat 2) (length example_products) = 2" by (simp add: example_products_def)
  from getRandomProducts_samples [OF example_getProducts n, of example_rnd empty_state]
  obtain r st' where
    "getRandomProducts example_env example_rnd (Some 2) empty_state = (Normal r, st')"
    "length (heap st' ! r) = min (nat 2) (length example_products)"
    "set (heap st' ! r) \<subseteq> set example_products"
    "distinct example_products \<longrightarrow> distinct (heap st' ! r)"
    by blast
  with d l have "\<exists>r st'. getRandomProducts example_env example_rnd (Some 2) empty_state = (Normal r, st')
          \<and> length (heap st' ! r) = 2 \<and> distinct (heap st' ! r)
          \<and> set (heap st' ! r) \<subseteq> set example_products"
    by (intro exI [of _ r] exI [of _ st']) simp
  with example_getProducts n d example_sample show ?thesis by (intro conjI)
qed

text \<open>
  Claim C8. \<^verbatim>\<open>getRandomProducts\<close> changes no array that existed before the call: the
  heap it leaves begins with the heap it found. The product array the call obtains from
  \<^verbatim>\<open>getProducts\<close> still has the same elements in the same order afterwards, and so has
  any array a caller hands to the body by reference: the in-place sort works on the
  copy made by the spread.
\<close>

theorem getRandomProducts_frame:
  "take (length (heap st)) (heap (snd (getRandomProducts env rnd count_arg st))) = heap st
   \<and> (getProducts env = Normal (Array xs) \<longrightarrow>
         heap (snd (getRandomProducts env rnd count_arg st)) ! length (heap st) = xs)
   \<and> (products < length (heap st) \<longrightarrow>
         heap (snd (getRandomProducts_from rnd cnt products st)) ! products = heap st ! products
         \<and> take (length (heap st)) (heap (snd (getRandomProducts_from rnd cnt products st))) = heap st)"
proof (intro conjI impI)
  show "take (length (heap st)) (heap (snd (getRandomProducts env rnd count_arg st))) = heap st"
  proof (cases "\<exists>ys. getProducts env = Normal (Array ys)")
    case True
    then obtain ys where "getProducts env = Normal (Array ys)" ..
    from getRandomProducts_Array [OF this, of rnd count_arg st] show ?thesis by auto
  next
    case noarr: False
    show ?thesis
    proof (cases "\<exists>s. getProducts env = Normal (String s)")
      case True
      then obtain s where "getProducts env = Normal (String s)" ..
      from getRandomProducts_String [OF this, of rnd count_arg st] show ?thesis by auto
    next
      case False
      with noarr have "snd (getRandomProducts env rnd count_arg st) = st"
        by (intro getRandomProducts_other [OF refl]) auto
      then show ?thesis by simp
    qed
  qed
next
  assume "getProducts env = Normal (Array xs)"
  from getRandomProducts_Array [OF this, of rnd count_arg st]
  show "heap (snd (getRandomProducts env rnd count_arg st)) ! length (heap st) = xs"
    by (auto simp: nth_append)
next
  assume p: "products < length (heap st)"
  from getRandomProducts_from_heap [OF p, of rnd cnt]
  show "heap (snd (getRandomProducts_from rnd cnt products st)) ! products = heap st ! products"
    using p by (auto simp: nth_append)
  from getRandomProducts_from_heap [OF p, of rnd cnt]
  show "take (length (heap st)) (heap (snd (getRandomProducts_from rnd cnt products st))) = heap st"
    by auto
qed

text \<open>
  A caller holds the product array at reference 0; after the body, and after the whole
  function, that array and the array obtained from the fixture are as before.
\<close>

theorem getRandomProducts_frame_witness:
  "getProducts example_env = Normal (Array example_products)
   \<and> 0 < length (heap shared_state)
   \<and> heap (snd (getRandomProducts_from example_rnd 2 0 shared_state)) ! 0 = example_products
   \<and> heap (snd (getRandomProducts example_env example_rnd (Some 2) shared_state)) ! 0 = example_products
   \<and> heap (snd (getRandomProducts example_env example_rnd (Some 2) shared_state)) ! 1 = example_products"
proof -
  have l: "0 < length (heap shared_state)" "length (heap shared_state) = 1"
    "heap shared_state ! 0 = example_products" "heap shared_state = [example_products]"
    by (simp_all add: shared_state_def)
  from getRandomProducts_frame [of shared_state example_env example_rnd "Some 2" example_products 0 2]
    example_getProducts l
  have a: "take 1 (heap (snd (getRandomProducts example_env example_rnd (Some 2) shared_state)))
             = [example_products]"
    and b: "heap (snd (getRandomProducts example_env example_rnd (Some 2) shared_state)) ! 1 = example_products"
    and c: "heap (snd (getRandomProducts_from example_rnd 2 0 shared_state)) ! 0 = example_products"
    by simp_all
  from a have "heap (snd (getRandomProducts example_env example_rnd (Some 2) shared_state)) ! 0
                 = example_products"
    by (metis nth_take nth_Cons_0 zero_less_one)
  with example_getProducts l(1) b c show ?thesis by simp
qed

section \<open>Properties of the page objects\<close>

lemma perform_snd [simp]: "calls (snd (perform c f b)) = calls b @ [c]"
  by (simp add: perform_def split: prod.splits)

lemma perform_fst [simp]: "fst (perform c f b) = fst (f (dom b))"
  by (simp add: perform_def split: prod.splits)

lemma perform_dom [simp]: "dom (snd (perform c f b)) = snd (f (dom b))"
  by (simp add: perform_def split: prod.splits)

lemma issues_perform: "issues (perform c f) [c]"
  unfolding issues_def
proof (intro allI conjI impI)
  fix b :: "'a browser"
  have "calls (snd (perform c f b)) = calls b @ take 1 [c]" by simp
  then show "\<exists>k. calls (snd (perform c f b)) = calls b @ take k [c]" ..
  show "calls (snd (perform c f b)) = calls b @ [c]" by simp
qed

lemma take_as_take_append: "\<exists>j. take k cs = take j (cs @ ds)"
proof (cases "k \<le> length cs")
  case True
  then have "take k cs = take k (cs @ ds)" by simp
  then show ?thesis ..
next
  case False
  then have "take k cs = take (length cs) (cs @ ds)" by simp
  then show ?thesis ..
qed

lemma issues_bind:
  assumes m: "issues m cs" and f: "\<And>a. issues (f a) ds"
  shows "issues (bind m f) (cs @ ds)"
  unfolding issues_def
proof (intro allI)
  fix b
  obtain r b1 where mb: "m b = (r, b1)" by (cases "m b")
  from m have "(\<exists>k. calls (snd (m b)) = calls b @ take k cs)
      \<and> (is_Normal (fst (m b)) \<longrightarrow> calls (snd (m b)) = calls b @ cs)"
    unfolding issues_def by (rule spec)
  then have ex: "\<exists>k. calls b1 = calls b @ take k cs"
    and full: "is_Normal r \<longrightarrow> calls b1 = calls b @ cs"
    unfolding mb fst_conv snd_conv by (rule conjunct1, rule conjunct2)
  show "(\<exists>k. calls (snd (bind m f b)) = calls b @ take k (cs @ ds))
        \<and> (is_Normal (fst (bind m f b)) \<longrightarrow> calls (snd (bind m f b)) = calls b @ cs @ ds)"
  proof (cases r)
    case (Throw err)
    then have e: "bind m f b = (Throw err, b1)" using mb by (simp add: bind_def)
    from ex obtain k where k: "calls b1 = calls b @ take k cs" ..
    obtain j where "take k cs = take j (cs @ ds)"
      using take_as_take_append [of k cs ds] ..
    then have "calls b1 = calls b @ take j (cs @ ds)"
      unfolding k by (rule arg_cong)
    then have "\<exists>k. calls b1 = calls b @ take k (cs @ ds)" ..
    then show ?thesis unfolding e fst_conv snd_conv by simp
  next
    case (Normal a)
    then have e: "bind m f b = f a b1" using mb by (simp add: bind_def)
    from Normal full have c1: "calls b1 = calls b @ cs" by simp
    from f [of a] have "(\<exists>j. calls (snd (f a b1)) = calls b1 @ take j ds)
      \<and> (is_Normal (fst (f a b1)) \<longrightarrow> calls (snd (f a b1)) = calls b1 @ ds)"
      unfolding issues_def by (rule spec)
    then have exf: "\<exists>j. calls (snd (f a b1)) = calls (b :: 'a browser) @ cs @ take j ds"
      and fullf: "is_Normal (fst (f a b1)) \<longrightarrow> calls (snd (f a b1)) = calls b @ cs @ ds"
      unfolding c1 append_assoc by (rule conjunct1, rule conjunct2)
    from exf obtain j where "calls (snd (f a b1)) = calls b @ cs @ take j ds" ..
    then have "calls (snd (f a b1)) = calls b @ take (length cs + j) (cs @ ds)"
      by simp
    then have 1: "\<exists>k. calls (snd (f a b1)) = calls b @ take k (cs @ ds)" ..
    from 1 fullf show ?thesis unfolding e by (rule conjI)
  qed
qed

lemma issues_fillInput:
  "issues (fillInput env s v) [WaitForSelector s 30000, Fill s v, WaitForTimeout 200]"
proof -
  have "issues (fillInput env s v) ([WaitForSelector s 30000] @ [Fill s v] @ [WaitForTimeout 200])"
    unfolding fillInput_def waitForElementVisible_def page_waitForSelector_def page_fill_def
      page_waitForTimeout_def
    by (intro issues_bind issues_perform)
  then show ?thesis by simp
qed

lemma issues_clickElement:
  "issues (clickElement env s) [WaitForSelector s 30000, Click s, WaitForTimeout 300]"
proof -
  have "issues (clickElement env s) ([WaitForSelector s 30000] @ [Click s] @ [WaitForTimeout 300])"
    unfolding clickElement_def waitForElementVisible_def page_waitForSelector_def page_click_def
      page_waitForTimeout_def
    by (intro issues_bind issues_perform)
  then show ?thesis by simp
qed

lemma issues_login: "issues (login env username password) (login_calls username password)"
proof -
  have "issues (login env username password)
          ([WaitForSelector usernameInput 30000, Fill usernameInput username, WaitForTimeout 200]
           @ [WaitForSelector passwordInput 30000, Fill passwordInput password, WaitForTimeout 200]
           @ [WaitForSelector loginButton 30000, Click loginButton, WaitForTimeout 300]
           @ [WaitForTimeout 1000])"
    unfolding login_def enterUsername_def enterPassword_def clickLogin_def
    by (intro issues_bind issues_fillInput issues_clickElement)
      (simp add: page_waitForTimeout_def issues_perform)
  then show ?thesis by (simp add: login_calls_def)
qed


lemma is_Normal_bind:
  assumes "\<And>b. is_Normal (fst (m b))" and "\<And>a b. is_Normal (fst (f a b))"
  shows "is_Normal (fst (bind m f b))"
proof -
  obtain r b1 where mb: "m b = (r, b1)" by (cases "m b")
  with assms(1) [of b] obtain a where "r = Normal a" by (cases r) simp_all
  with mb have "bind m f b = f a b1" by (simp add: bind_def)
  with assms(2) [of a b1] show ?thesis by simp
qed

lemma responsive_login:
  assumes "responsive env"
  shows "is_Normal (fst (login env username password b))"
proof -
  have w: "\<And>s b. is_Normal (fst (waitForElementVisible env s b))"
    using assms by (simp add: responsive_def waitForElementVisible_def page_waitForSelector_def)
  have f: "\<And>s v b. is_Normal (fst (page_fill env s v b))"
    using assms by (simp add: responsive_def page_fill_def)
  have c: "\<And>s b. is_Normal (fst (page_click env s b))"
    using assms by (simp add: responsive_def page_click_def)
  have t: "\<And>ms b. is_Normal (fst (page_waitForTimeout env ms b))"
    by (simp add: page_waitForTimeout_def)
  have fi: "\<And>s v b. is_Normal (fst (fillInput env s v b))"
    unfolding fillInput_def by (intro is_Normal_bind w f t)
  have ce: "\<And>s b. is_Normal (fst (clickElement env s b))"
    unfolding clickElement_def by (intro is_Normal_bind w c t)
  show ?thesis
    unfolding login_def enterUsername_def enterPassword_def clickLogin_def
    by (intro is_Normal_bind fi ce t)
qed

text \<open>
  Claim C6. \<^verbatim>\<open>isElementVisible\<close> makes one call, a wait for the selector bounded by 5000
  milliseconds, and returns normally for every selector and every page: \<open>True\<close> when the
  wait succeeds and \<open>False\<close> when it throws, as it does on a timeout. It never throws.
\<close>

theorem isElementVisible_never_throws:
  "fst (isElementVisible env selector b)
     = Normal (is_Normal (fst (pw_waitForSelector env selector 5000 (dom b))))
   \<and> calls (snd (isElementVisible env selector b)) = calls b @ [WaitForSelector selector 5000]
   \<and> dom (snd (isElementVisible env selector b)) = snd (pw_waitForSelector env selector 5000 (dom b))"
  by (cases "pw_waitForSelector env selector 5000 (dom b)";
      cases "fst (pw_waitForSelector env selector 5000 (dom b))")
    (simp_all add: isElementVisible_def page_waitForSelector_def perform_def)

lemma run_calls_append:
  "run_calls env (cs @ ds) b = bind (run_calls env cs) (\<lambda>_. run_calls env ds) b"
proof (induction cs arbitrary: b)
  case Nil
  show ?case by (simp add: bind_def)
next
  case (Cons c cs)
  obtain r d where rc: "run_call env c (dom b) = (r, d)"
    by (cases "run_call env c (dom b)")
  show ?case
  proof (cases r)
    case (Throw e)
    with rc show ?thesis by (simp add: bind_def)
  next
    case (Normal u)
    with rc Cons [of "\<lparr>calls = calls b @ [c], dom = d\<rparr>"] show ?thesis
      by (simp add: bind_def)
  qed
qed

lemma bind_run_calls:
  "bind (run_calls env cs) (\<lambda>_. run_calls env ds) = run_calls env (cs @ ds)"
  by (rule ext) (simp add: run_calls_append)

lemma run_calls_single: "run_calls env [c] b = perform c (run_call env c) b"
  by (simp add: perform_def split: prod.splits completion.splits)

lemma page_calls_as_run_calls:
  "page_waitForSelector env s t = run_calls env [WaitForSelector s t]"
  "page_fill env s v = run_calls env [Fill s v]"
  "page_click env s = run_calls env [Click s]"
  "page_waitForTimeout env ms = run_calls env [WaitForTimeout ms]"
proof -
  have f: "run_call env (WaitForSelector s t) = pw_waitForSelector env s t"
    "run_call env (Fill s v) = pw_fill env s v"
    "run_call env (Click s) = pw_click env s"
    "run_call env (WaitForTimeout ms) = (\<lambda>d. (Normal (), pw_waitForTimeout env ms d))"
    by (rule ext, simp)+
  show "page_waitForSelector env s t = run_calls env [WaitForSelector s t]"
    by (rule ext) (simp only: run_calls_single f page_waitForSelector_def)
  show "page_fill env s v = run_calls env [Fill s v]"
    by (rule ext) (simp only: run_calls_single f page_fill_def)
  show "page_click env s = run_calls env [Click s]"
    by (rule ext) (simp only: run_calls_single f page_click_def)
  show "page_waitForTimeout env ms = run_calls env [WaitForTimeout ms]"
    by (rule ext) (simp only: run_calls_single f page_waitForTimeout_def)
qed

lemma fillInput_run_calls:
  "fillInput env s v = run_calls env [WaitForSelector s 30000, Fill s v, WaitForTimeout 200]"
  by (simp add: fillInput_def waitForElementVisible_def page_calls_as_run_calls bind_run_calls)

lemma clickElement_run_calls:
  "clickElement env s = run_calls env [WaitForSelector s 30000, Click s, WaitForTimeout 300]"
  by (simp add: clickElement_def waitForElementVisible_def page_calls_as_run_calls bind_run_calls)

lemma login_run_calls:
  "login env username password = run_calls env (login_calls username password)"
  by (simp add: login_def enterUsername_def enterPassword_def clickLogin_def
      fillInput_run_calls clickElement_run_calls page_calls_as_run_calls bind_run_calls
      login_calls_def)

text \<open>
  Claim C7. For every username and password, \<^verbatim>\<open>login\<close> is the run of one fixed list of
  calls on the page, each made on the page the previous call left: the inputs to the
  page in that list are the fill of the username field, the fill of the password field
  and the click on the login button, in this order, and its last call is the settling
  wait of 1000 milliseconds. The calls it has made are a beginning of the list, and all
  of it when \<^verbatim>\<open>login\<close> returns. On a page where no wait, fill or click fails \<^verbatim>\<open>login\<close>
  returns, and what it returns is the unit value: no verdict on the credentials.
\<close>

theorem login_fixed_interaction:
  "login env username password b = run_calls env (login_calls username password) b
   \<and> (\<exists>k. calls (snd (login env username password b))
           = calls b @ take k (login_calls username password))
   \<and> (is_Normal (fst (login env username password b)) \<longrightarrow>
         fst (login env username password b) = Normal ()
         \<and> calls (snd (login env username password b)) = calls b @ login_calls username password)
   \<and> (responsive env \<longrightarrow> is_Normal (fst (login env username password b)))
   \<and> filter is_input (login_calls username password)
         = [Fill usernameInput username, Fill passwordInput password, Click loginButton]
   \<and> last (login_calls username password) = WaitForTimeout 1000"
proof (intro conjI impI)
  show "login env username password b = run_calls env (login_calls username password) b"
    by (simp only: login_run_calls)
  from issues_login [of env username password]
  have i: "(\<exists>k. calls (snd (login env username password b))
                 = calls b @ take k (login_calls username password))
      \<and> (is_Normal (fst (login env username password b)) \<longrightarrow>
            calls (snd (login env username password b)) = calls b @ login_calls username password)"
    unfolding issues_def by (rule spec)
  from i show "\<exists>k. calls (snd (login env username password b))
                 = calls b @ take k (login_calls username password)"
    by (rule conjunct1)
  show "fst (login env username password b) = Normal ()"
    if "is_Normal (fst (login env username password b))"
    using that by (cases "fst (login env username password b)") simp_all
  show "calls (snd (login env username password b)) = calls b @ login_calls username password"
    if "is_Normal (fst (login env username password b))"
    using i that by simp
  show "is_Normal (fst (login env username password b))" if "responsive env"
    using that by (rule responsive_login)
  show "filter is_input (login_calls username password)
         = [Fill usernameInput username, Fill passwordInput password, Click loginButton]"
    by (simp add: login_calls_def)
  show "last (login_calls username password) = WaitForTimeout 1000"
    by (simp add: login_calls_def)
qed

lemma responsive_login_site: "responsive login_site"
  by (simp add: responsive_def login_site_def split: prod.splits)

lemma run_calls_login_site:
  "run_calls login_site (login_calls ''standard_user'' ''secret_sauce'')
     \<lparr>calls = [], dom = (([], []), None)\<rparr>
   = (Normal (),
      \<lparr>calls = login_calls ''standard_user'' ''secret_sauce'',
       dom = ((''standard_user'', ''secret_sauce''), Some (''standard_user'', ''secret_sauce''))\<rparr>)"
  by (simp add: login_calls_def login_site_def usernameInput_def passwordInput_def
      loginButton_def)

text \<open>
  A login on the login page with empty fields: afterwards both fields are filled and
  the click has submitted the two credentials.
\<close>

theorem login_fixed_interaction_witness:
  "responsive login_site
   \<and> login login_site ''standard_user'' ''secret_sauce'' \<lparr>calls = [], dom = (([], []), None)\<rparr>
       = (Normal (),
          \<lparr>calls = login_calls ''standard_user'' ''secret_sauce'',
           dom = ((''standard_user'', ''secret_sauce''),
                  Some (''standard_user'', ''secret_sauce''))\<rparr>)"
proof -
  have "login login_site ''standard_user'' ''secret_sauce'' \<lparr>calls = [], dom = (([], []), None)\<rparr>
      = run_calls login_site (login_calls ''standard_user'' ''secret_sauce'')
          \<lparr>calls = [], dom = (([], []), None)\<rparr>"
    using login_fixed_interaction
      [of login_site "''standard_user''" "''secret_sauce''"
        "\<lparr>calls = [], dom = (([], []), None)\<rparr>"]
    by (rule conjunct1)
  then have "login login_site ''standard_user'' ''secret_sauce'' \<lparr>calls = [], dom = (([], []), None)\<rparr>
      = (Normal (),
         \<lparr>calls = login_calls ''standard_user'' ''secret_sauce'',
          dom = ((''standard_user'', ''secret_sauce''),
                 Some (''standard_user'', ''secret_sauce''))\<rparr>)"
    by (simp only: run_calls_login_site)
  with responsive_login_site show ?thesis by (rule conjI)
qed

lemma getCartItemCount_unfold:
  "ProductsPage_getCartItemCount env b =
     (case pw_waitForSelector env shoppingCartBadge 5000 (dom b) of
        (Throw _, d1) \<Rightarrow>
          (Normal (Integer 0),
           \<lparr>calls = calls b @ [WaitForSelector shoppingCartBadge 5000], dom = d1\<rparr>)
      | (Normal _, d1) \<Rightarrow>
          (case pw_waitForSelector env shoppingCartBadge 30000 d1 of
             (Throw e, d2) \<Rightarrow>
               (Throw e, \<lparr>calls = calls b @ [WaitForSelector shoppingCartBadge 5000,
                   WaitForSelector shoppingCartBadge 30000], dom = d2\<rparr>)
           | (Normal _, d2) \<Rightarrow>
               (case pw_textContent env shoppingCartBadge d2 of
                  (Throw e, d3) \<Rightarrow>
                    (Throw e, \<lparr>calls = calls b @ [WaitForSelector shoppingCartBadge 5000,
                        WaitForSelector shoppingCartBadge 30000, TextContent shoppingCartBadge],
                      dom = d3\<rparr>)
                | (Normal text, d3) \<Rightarrow>
                    (Normal (or_zero (parseInt (trimmed_text text))),
                     \<lparr>calls = calls b @ [WaitForSelector shoppingCartBadge 5000,
                        WaitForSelector shoppingCartBadge 30000, TextContent shoppingCartBadge],
                      dom = d3\<rparr>))))"
  by (simp add: ProductsPage_getCartItemCount_def isElementVisible_def getElementText_def
      waitForElementVisible_def page_waitForSelector_def page_textContent_def perform_def
      bind_def return_def split: prod.splits completion.splits)

lemma or_zero_eq: "or_zero v = (case v of NotANumber \<Rightarrow> Integer 0 | Integer n \<Rightarrow> Integer n
                                 | Approximately m \<Rightarrow> Approximately m)"
  by (simp add: or_zero_def split: js_integer.splits)

lemma vanishing_badge_reads:
  "pw_waitForSelector vanishing_badge s t d = (if d then Normal () else Throw timeout_error, False)"
  by (simp add: vanishing_badge_def)

text \<open>
  Claim C9, as stated, on a page whose badge is gone once a wait has seen it:
  \<^verbatim>\<open>isElementVisible\<close> reports the badge visible, so \<^verbatim>\<open>getCartItemCount\<close> goes on to
  \<^verbatim>\<open>getElementText\<close>, whose own wait for the badge ends in a timeout. Nothing catches
  that error: the call throws instead of returning a number.
\<close>

theorem getCartItemCount_throws_when_badge_vanishes:
  "fst (isElementVisible vanishing_badge shoppingCartBadge \<lparr>calls = [], dom = True\<rparr>)
     = Normal True
   \<and> fst (ProductsPage_getCartItemCount vanishing_badge \<lparr>calls = [], dom = True\<rparr>)
     = Throw timeout_error"
  by (simp add: getCartItemCount_unfold isElementVisible_def page_waitForSelector_def
      perform_def vanishing_badge_reads)

text \<open>
  Claim C9, amended. \<^verbatim>\<open>ProductsPage.getCartItemCount\<close> returns 0 when the badge is
  hidden. When the badge shows a text it returns what \<^verbatim>\<open>parseInt\<close> reads from the
  trimmed text, and 0 when \<^verbatim>\<open>parseInt\<close> reads no integer (\<open>NaN\<close>). When the badge was seen
  and the wait or the read of \<^verbatim>\<open>getElementText\<close> then fails, it throws the error of that
  call. One of the three is always the case, so the function returns normally exactly
  when the badge is hidden or shows a text, and is not total.
\<close>

theorem getCartItemCount_badge_states:
  "(badge_hidden env (dom b) \<longrightarrow>
      fst (ProductsPage_getCartItemCount env b) = Normal (Integer 0))
   \<and> (badge_shows env (dom b) text \<longrightarrow>
         fst (ProductsPage_getCartItemCount env b)
           = Normal (case parseInt (trimmed_text text) of
                       NotANumber \<Rightarrow> Integer 0 | Integer n \<Rightarrow> Integer n
                     | Approximately m \<Rightarrow> Approximately m))
   \<and> (badge_read_fails env (dom b) e \<longrightarrow>
         fst (ProductsPage_getCartItemCount env b) = Throw e)
   \<and> is_Normal (fst (ProductsPage_getCartItemCount env b))
         = (badge_hidden env (dom b) \<or> (\<exists>t. badge_shows env (dom b) t))
   \<and> (badge_hidden env (dom b) \<or> (\<exists>t. badge_shows env (dom b) t)
        \<or> (\<exists>e. badge_read_fails env (dom b) e))"
proof (intro conjI impI)
  show "fst (ProductsPage_getCartItemCount env b) = Normal (Integer 0)"
    if "badge_hidden env (dom b)"
    using that unfolding getCartItemCount_unfold badge_hidden_def
    by (auto split: prod.splits completion.splits)
  show "fst (ProductsPage_getCartItemCount env b)
           = Normal (case parseInt (trimmed_text text) of
                       NotANumber \<Rightarrow> Integer 0 | Integer n \<Rightarrow> Integer n
                     | Approximately m \<Rightarrow> Approximately m)"
    if "badge_shows env (dom b) text"
    using that unfolding getCartItemCount_unfold badge_shows_def or_zero_eq
    by (auto split: prod.splits completion.splits)
  show "fst (ProductsPage_getCartItemCount env b) = Throw e"
    if "badge_read_fails env (dom b) e"
    using that unfolding getCartItemCount_unfold badge_read_fails_def
    by (auto split: prod.splits completion.splits)
  show "is_Normal (fst (ProductsPage_getCartItemCount env b))
         = (badge_hidden env (dom b) \<or> (\<exists>t. badge_shows env (dom b) t))"
    unfolding getCartItemCount_unfold badge_hidden_def badge_shows_def
    by (auto split: prod.splits completion.splits)
  show "badge_hidden env (dom b) \<or> (\<exists>t. badge_shows env (dom b) t)
        \<or> (\<exists>e. badge_read_fails env (dom b) e)"
    unfolding badge_hidden_def badge_shows_def badge_read_fails_def
    by (cases "pw_waitForSelector env shoppingCartBadge 5000 (dom b)";
        cases "fst (pw_waitForSelector env shoppingCartBadge 5000 (dom b))";
        cases "pw_waitForSelector env shoppingCartBadge 30000
                 (snd (pw_waitForSelector env shoppingCartBadge 5000 (dom b)))";
        cases "fst (pw_waitForSelector env shoppingCartBadge 30000
                 (snd (pw_waitForSelector env shoppingCartBadge 5000 (dom b))))";
        cases "fst (pw_textContent env shoppingCartBadge
                 (snd (pw_waitForSelector env shoppingCartBadge 30000
                    (snd (pw_waitForSelector env shoppingCartBadge 5000 (dom b))))))")
      simp_all
qed

lemma parseInt_examples:
  "parseInt ''3'' = Integer 3" "parseInt ''abc'' = NotANumber"
  "parseInt ''12 items'' = Integer 12"
  "parseInt ''9007199254740993'' = Approximately 9007199254740993"
  by (simp_all add: parseInt_def isWhiteSpace_def radix_digits_def isDigit_def digit_value_def
      to_Number_def)

lemma trimmed_text_examples:
  "trimmed_text (Some '' 3 '') = ''3''" "trimmed_text (Some ''abc'') = ''abc''"
  "trimmed_text None = []"
  by (simp_all add: trimmed_text_def trim_def isWhiteSpace_def)

lemma badge_page_states:
  "badge_hidden badge_page None"
  "badge_shows badge_page (Some t) (Some t)"
  by (simp_all add: badge_hidden_def badge_shows_def badge_page_def)

lemma vanishing_badge_fails: "badge_read_fails vanishing_badge True timeout_error"
  by (simp add: badge_read_fails_def vanishing_badge_reads)

text \<open>
  The badge hidden, showing \<^verbatim>\<open>" 3 "\<close>, showing \<^verbatim>\<open>"abc"\<close>, and gone after the first wait.
\<close>

theorem getCartItemCount_badge_states_witness:
  "badge_hidden badge_page None
   \<and> fst (ProductsPage_getCartItemCount badge_page \<lparr>calls = [], dom = None\<rparr>)
       = Normal (Integer 0)
   \<and> badge_shows badge_page (Some '' 3 '') (Some '' 3 '')
   \<and> fst (ProductsPage_getCartItemCount badge_page \<lparr>calls = [], dom = Some '' 3 ''\<rparr>)
       = Normal (Integer 3)
   \<and> badge_shows badge_page (Some ''abc'') (Some ''abc'')
   \<and> fst (ProductsPage_getCartItemCount badge_page \<lparr>calls = [], dom = Some ''abc''\<rparr>)
       = Normal (Integer 0)
   \<and> badge_read_fails vanishing_badge True timeout_error
   \<and> fst (ProductsPage_getCartItemCount vanishing_badge \<lparr>calls = [], dom = True\<rparr>)
       = Throw timeout_error"
  using getCartItemCount_badge_states [of badge_page "\<lparr>calls = [], dom = None\<rparr>"]
    getCartItemCount_badge_states
      [of badge_page "\<lparr>calls = [], dom = Some '' 3 ''\<rparr>" "Some '' 3 ''"]
    getCartItemCount_badge_states
      [of badge_page "\<lparr>calls = [], dom = Some ''abc''\<rparr>" "Some ''abc''"]
    getCartItemCount_badge_states
      [of vanishing_badge "\<lparr>calls = [], dom = True\<rparr>" _ timeout_error]
  by (simp add: badge_page_states parseInt_examples trimmed_text_examples vanishing_badge_fails)

section \<open>Properties of clearCart\<close>

lemma clearCart_empty:
  assumes "cart_count env (dom b) = 0"
  shows "clearCart env b = Some (Normal (), \<lparr>calls = calls b @ [LocatorAll cartItems], dom = dom b\<rparr>)"
  using assms
  by (subst clearCart.simps)
    (simp add: CartPage_getCartItemCount_def locator_all_def perform_def cart_count_def)

lemma clearCart_hidden:
  assumes "0 < cart_count env (dom b)" and "\<not> remove_visible env (dom b)"
  shows "clearCart env b =
    Some (Normal (), \<lparr>calls = calls b @ [LocatorAll cartItems, FirstIsVisible removeButtons],
                      dom = dom b\<rparr>)"
  using assms
  by (subst clearCart.simps)
    (simp add: CartPage_getCartItemCount_def locator_all_def locator_first_isVisible_def
      perform_def cart_count_def remove_visible_def)

lemma clearCart_round:
  assumes "0 < cart_count env (dom b)" and "remove_visible env (dom b)"
    and "pw_first_click env removeButtons (dom b) = (Normal (), d1)"
  shows "clearCart env b =
    clearCart env \<lparr>calls = calls b @ clear_round, dom = pw_waitForTimeout env 700 d1\<rparr>"
  using assms
  by (subst clearCart.simps)
    (simp add: CartPage_getCartItemCount_def locator_all_def locator_first_isVisible_def
      locator_first_click_def page_waitForTimeout_def perform_def cart_count_def
      remove_visible_def clear_round_def)

lemma clearCart_returns:
  assumes rd: "removal_decrements env"
  shows "cart_count env (dom b) = n \<Longrightarrow>
    \<exists>b'. clearCart env b = Some (Normal (), b')
       \<and> (cart_count env (dom b') = 0 \<or> \<not> remove_visible env (dom b'))
       \<and> (remove_always_visible env \<longrightarrow>
            cart_count env (dom b') = 0
            \<and> calls b' = calls b @ concat (replicate n clear_round) @ [LocatorAll cartItems])"
proof (induction n arbitrary: b)
  case 0
  let ?b' = "\<lparr>calls = calls b @ [LocatorAll cartItems], dom = dom b\<rparr>"
  from 0 have "clearCart env b = Some (Normal (), ?b')" by (rule clearCart_empty)
  moreover have "cart_count env (dom ?b') = 0" using 0 by simp
  moreover have "calls ?b' = calls b @ concat (replicate 0 clear_round) @ [LocatorAll cartItems]"
    by simp
  ultimately show ?case by blast
next
  case (Suc n)
  then have pos: "0 < cart_count env (dom b)" by simp
  show ?case
  proof (cases "remove_visible env (dom b)")
    case False
    let ?b' = "\<lparr>calls = calls b @ [LocatorAll cartItems, FirstIsVisible removeButtons],
                dom = dom b\<rparr>"
    from pos False have "clearCart env b = Some (Normal (), ?b')" by (rule clearCart_hidden)
    moreover have "\<not> remove_visible env (dom ?b')" using False by simp
    moreover have "\<not> remove_always_visible env"
      using pos False unfolding remove_always_visible_def by blast
    ultimately show ?thesis by blast
  next
    case True
    obtain r d1 where click: "pw_first_click env removeButtons (dom b) = (r, d1)"
      by (cases "pw_first_click env removeButtons (dom b)")
    from rd pos True click have r: "r = Normal ()"
      and less: "cart_count env (pw_waitForTimeout env 700 d1) = cart_count env (dom b) - 1"
      unfolding removal_decrements_def by fastforce+
    let ?b4 = "\<lparr>calls = calls b @ clear_round, dom = pw_waitForTimeout env 700 d1\<rparr>"
    have step: "clearCart env b = clearCart env ?b4"
      using pos True click [unfolded r] by (rule clearCart_round)
    have "cart_count env (dom ?b4) = n" using less Suc.prems by simp
    from Suc.IH [OF this] obtain b' where b': "clearCart env ?b4 = Some (Normal (), b')"
      "cart_count env (dom b') = 0 \<or> \<not> remove_visible env (dom b')"
      "remove_always_visible env \<longrightarrow>
         cart_count env (dom b') = 0
         \<and> calls b' = calls ?b4 @ concat (replicate n clear_round) @ [LocatorAll cartItems]"
      by blast
    have "calls ?b4 @ concat (replicate n clear_round) @ [LocatorAll cartItems]
        = calls b @ concat (replicate (Suc n) clear_round) @ [LocatorAll cartItems]"
      by simp
    with b' step show ?thesis by auto
  qed
qed

text \<open>
  Claim C4, amended. When every removal decreases the live item count by one,
  \<^verbatim>\<open>clearCart\<close> terminates and returns normally, and on return the cart is empty or its
  first remove button is not visible (the loop's \<^verbatim>\<open>break\<close>). When moreover a remove button
  is visible whenever the cart has items, the cart is empty on return, and the calls
  made are one round (count, look, click, wait) for every item that was in the cart,
  followed by the last reading of the count: the count is read again after every
  removal.
\<close>

theorem clearCart_terminates:
  assumes "removal_decrements env"
  shows "\<exists>b'. clearCart env b = Some (Normal (), b')
       \<and> (cart_count env (dom b') = 0 \<or> \<not> remove_visible env (dom b'))
       \<and> (remove_always_visible env \<longrightarrow>
            cart_count env (dom b') = 0
            \<and> calls b' = calls b @ concat (replicate (cart_count env (dom b)) clear_round)
                          @ [LocatorAll cartItems])"
  using clearCart_returns [OF assms refl] .

lemma removal_decrements_cart_site: "removal_decrements cart_site"
  unfolding removal_decrements_def cart_count_def remove_visible_def
proof (intro allI impI)
  fix d :: "bool list"
  assume a: "0 < pw_locator_all cart_site cartItems d \<and> pw_first_isVisible cart_site removeButtons d"
  then obtain r where d: "d = True # r"
    by (cases d) (simp_all add: cart_site_def)
  show "case pw_first_click cart_site removeButtons d of
          (r, d1) \<Rightarrow> r = Normal ()
            \<and> pw_locator_all cart_site cartItems (pw_waitForTimeout cart_site 700 d1)
                = pw_locator_all cart_site cartItems d - 1"
    unfolding d by (simp add: cart_site_def)
qed

lemma cart_site_reads:
  "cart_count cart_site d = length d"
  "remove_visible cart_site (v # d) = v"
  "remove_visible cart_site [] = False"
  "pw_first_click cart_site s (True # d) = (Normal (), d)"
  "pw_waitForTimeout cart_site ms d = d"
  by (simp_all add: cart_count_def remove_visible_def cart_site_def)

text \<open>
  Claim C4, as stated, on a cart with one item whose remove button is not visible: every
  removal on this site decreases the count by one, yet the loop reads the count 1,
  finds no visible remove button and leaves through \<^verbatim>\<open>break\<close>. It returns with the item
  still in the cart.
\<close>

theorem clearCart_hidden_button_leaves_item:
  "removal_decrements cart_site
   \<and> cart_count cart_site [False] = 1
   \<and> clearCart cart_site \<lparr>calls = [], dom = [False]\<rparr>
       = Some (Normal (), \<lparr>calls = [LocatorAll cartItems, FirstIsVisible removeButtons],
                           dom = [False]\<rparr>)"
  using clearCart_hidden [of cart_site "\<lparr>calls = [], dom = [False]\<rparr>"]
  by (simp add: removal_decrements_cart_site cart_site_reads)

text \<open>A cart with two items and visible remove buttons: two rounds, then empty.\<close>

theorem clearCart_terminates_witness:
  "removal_decrements cart_site
   \<and> clearCart cart_site \<lparr>calls = [], dom = [True, True]\<rparr>
       = Some (Normal (), \<lparr>calls = clear_round @ clear_round @ [LocatorAll cartItems], dom = []\<rparr>)
   \<and> cart_count cart_site [] = 0"
proof -
  let ?b = "\<lparr>calls = [], dom = [True, True]\<rparr> :: bool list browser"
  have 1: "clearCart cart_site ?b
      = clearCart cart_site \<lparr>calls = clear_round, dom = [True]\<rparr>"
    using clearCart_round [of cart_site ?b "[True]"] by (simp add: cart_site_reads)
  have 2: "clearCart cart_site \<lparr>calls = clear_round, dom = [True]\<rparr>
      = clearCart cart_site \<lparr>calls = clear_round @ clear_round, dom = []\<rparr>"
    using clearCart_round [of cart_site "\<lparr>calls = clear_round, dom = [True]\<rparr>" "[]"]
    by (simp add: cart_site_reads)
  have 3: "clearCart cart_site \<lparr>calls = clear_round @ clear_round, dom = []\<rparr>
      = Some (Normal (), \<lparr>calls = clear_round @ clear_round @ [LocatorAll cartItems], dom = []\<rparr>)"
    using clearCart_empty [of cart_site "\<lparr>calls = clear_round @ clear_round, dom = []\<rparr>"]
    by (simp add: cart_site_reads)
  from clearCart_terminates [OF removal_decrements_cart_site, of ?b]
  obtain b' where "clearCart cart_site ?b = Some (Normal (), b')"
    "cart_count cart_site (dom b') = 0 \<or> \<not> remove_visible cart_site (dom b')"
    by blast
  with 1 2 3 removal_decrements_cart_site show ?thesis
    by (simp add: cart_site_reads)
qed


end
